theory Spec2Isabelle
  imports Main "HOL-Library.Char_ord" "HOL-Library.List_Lexorder" "HOL-Library.Multiset"
begin

section \<open>The reference updater (internal/git/updateref/updateref.go)\<close>

text \<open>
  The updater wraps a \<^verbatim>\<open>git update-ref --stdin\<close> process. The only field of the Go struct
  that its methods branch on is \<^verbatim>\<open>state\<close>; the process is the environment. What the process
  does during one method call is given to the model as a \<open>proc_io\<close> value: whether the write
  to its standard input fails, what reading a line from its standard output returns, what
  \<^verbatim>\<open>cmd.Wait()\<close> returns and what its standard error holds. Every method makes at most one
  write, one read and one wait, so one value per call is enough. Bytes written with success
  are appended to \<open>stdin_log\<close>.
\<close>

datatype state = stateIdle | stateStarted | statePrepared | stateClosed

type_synonym ReferenceName = string
type_synonym ObjectID = string

datatype updater_error =
    invalidStateTransitionError state state
  | ErrAlreadyLocked string
  | ErrInvalidReferenceFormat string
  | WriteError string string
  | UpdatingStateError string updater_error
  | StateUpdateFailed string string string
  | StateUpdateNotSuccessful string string
  | ClosingUpdater string

record proc_io =
  write_err :: "string option"
  read_res :: "string + string"
  wait_err :: "string option"
  stderr_buf :: string

record Updater =
  state :: state
  ZeroOID :: ObjectID
  stdin_log :: "string list"

definition Close :: "proc_io \<Rightarrow> Updater \<Rightarrow> Updater \<times> updater_error option" where
  "Close io u =
     (u\<lparr>state := stateClosed\<rparr>,
      case wait_err io of Some e \<Rightarrow> Some (ClosingUpdater e) | None \<Rightarrow> None)"

definition checkState :: "state \<Rightarrow> Updater \<Rightarrow> updater_error option" where
  "checkState expected u =
     (if state u \<noteq> expected then Some (invalidStateTransitionError expected (state u))
      else None)"

definition expectState :: "proc_io \<Rightarrow> state \<Rightarrow> Updater \<Rightarrow> Updater \<times> updater_error option" where
  "expectState io expected u =
     (case checkState expected u of
        Some err \<Rightarrow> (fst (Close io u), Some err)
      | None \<Rightarrow> (u, None))"

definition write_cmd :: "proc_io \<Rightarrow> string \<Rightarrow> Updater \<Rightarrow> Updater \<times> updater_error option" where
  "write_cmd io bytes u =
     (case write_err io of
        Some err \<Rightarrow> (fst (Close io u), Some (WriteError err (stderr_buf io)))
      | None \<Rightarrow> (u\<lparr>stdin_log := stdin_log u @ [bytes]\<rparr>, None))"

definition setState :: "proc_io \<Rightarrow> string \<Rightarrow> Updater \<Rightarrow> Updater \<times> updater_error option" where
  "setState io st u =
     (case write_cmd io (st @ [CHR 0x00]) u of
        (u1, Some err) \<Rightarrow> (u1, Some (UpdatingStateError st err))
      | (u1, None) \<Rightarrow>
          (case read_res io of
             Inl err \<Rightarrow> (fst (Close io u1), Some (StateUpdateFailed st err (stderr_buf io)))
           | Inr line \<Rightarrow>
               if line \<noteq> st @ '': ok'' @ [CHR 0x0A]
               then (fst (Close io u1), Some (StateUpdateNotSuccessful st line))
               else (u1, None)))"

definition Start :: "proc_io \<Rightarrow> Updater \<Rightarrow> Updater \<times> updater_error option" where
  "Start io u =
     (case expectState io stateIdle u of
        (u1, Some err) \<Rightarrow> (u1, Some err)
      | (u1, None) \<Rightarrow> setState io ''start'' (u1\<lparr>state := stateStarted\<rparr>))"

definition Update ::
  "proc_io \<Rightarrow> ReferenceName \<Rightarrow> ObjectID \<Rightarrow> ObjectID \<Rightarrow> Updater \<Rightarrow> Updater \<times> updater_error option"
where
  "Update io reference newOID oldOID u =
     (case expectState io stateStarted u of
        (u1, Some err) \<Rightarrow> (u1, Some err)
      | (u1, None) \<Rightarrow>
          write_cmd io (''update '' @ reference @ [CHR 0x00] @ newOID @ [CHR 0x00] @ oldOID @ [CHR 0x00]) u1)"

definition Create ::
  "proc_io \<Rightarrow> ReferenceName \<Rightarrow> ObjectID \<Rightarrow> Updater \<Rightarrow> Updater \<times> updater_error option"
where
  "Create io reference oid u = Update io reference oid (ZeroOID u) u"

definition Delete :: "proc_io \<Rightarrow> ReferenceName \<Rightarrow> Updater \<Rightarrow> Updater \<times> updater_error option" where
  "Delete io reference u = Update io reference (ZeroOID u) '''' u"

text \<open>
  \<^verbatim>\<open>Prepare\<close> classifies a failure of the state change with two regular expressions over the
  error's message. The regular expression library and the formatting of the message are
  not part of the repository; the two matchers are parameters: \<open>refLocked err\<close> is the first
  submatch of \<^verbatim>\<open>cannot lock ref '(.+?)'\<close> in the message of \<open>err\<close>, if it matches, and
  \<open>refInvalidFormat err\<close> that of the invalid-format expression.
\<close>

definition Prepare ::
  "(updater_error \<Rightarrow> string option) \<Rightarrow> (updater_error \<Rightarrow> string option) \<Rightarrow>
   proc_io \<Rightarrow> Updater \<Rightarrow> Updater \<times> updater_error option"
where
  "Prepare refLocked refInvalidFormat io u =
     (case expectState io stateStarted u of
        (u1, Some err) \<Rightarrow> (u1, Some err)
      | (u1, None) \<Rightarrow>
          (case setState io ''prepare'' (u1\<lparr>state := statePrepared\<rparr>) of
             (u2, Some err) \<Rightarrow>
               (case refLocked err of
                  Some r \<Rightarrow> (u2, Some (ErrAlreadyLocked r))
                | None \<Rightarrow>
                    (case refInvalidFormat err of
                       Some r \<Rightarrow> (u2, Some (ErrInvalidReferenceFormat r))
                     | None \<Rightarrow> (u2, Some err)))
           | (u2, None) \<Rightarrow> (u2, None)))"

definition Commit :: "proc_io \<Rightarrow> Updater \<Rightarrow> Updater \<times> updater_error option" where
  "Commit io u =
     (case checkState statePrepared u of
        Some _ \<Rightarrow>
          (case expectState io stateStarted u of
             (u1, Some err) \<Rightarrow> (u1, Some err)
           | (u1, None) \<Rightarrow> setState io ''commit'' (u1\<lparr>state := stateIdle\<rparr>))
      | None \<Rightarrow> setState io ''commit'' (u\<lparr>state := stateIdle\<rparr>))"

text \<open>
  A method call on the updater, for statements that range over every method, and the
  updater driven through a sequence of calls, each with the behaviour of the process during
  that call. \<open>allowed c\<close> are the states in which the source lets the call \<open>c\<close> go ahead,
  \<open>expected c\<close> is the state its \<^verbatim>\<open>expectState\<close> names, \<open>target c\<close> the state it assigns.
\<close>

datatype updater_call =
    CallStart
  | CallUpdate ReferenceName ObjectID ObjectID
  | CallCreate ReferenceName ObjectID
  | CallDelete ReferenceName
  | CallPrepare
  | CallCommit

fun call ::
  "(updater_error \<Rightarrow> string option) \<Rightarrow> (updater_error \<Rightarrow> string option) \<Rightarrow>
   proc_io \<Rightarrow> updater_call \<Rightarrow> Updater \<Rightarrow> Updater \<times> updater_error option"
where
  "call rl rf io CallStart u = Start io u"
| "call rl rf io (CallUpdate r n old) u = Update io r n old u"
| "call rl rf io (CallCreate r oid) u = Create io r oid u"
| "call rl rf io (CallDelete r) u = Delete io r u"
| "call rl rf io CallPrepare u = Prepare rl rf io u"
| "call rl rf io CallCommit u = Commit io u"



fun expected :: "updater_call \<Rightarrow> state" where
  "expected CallStart = stateIdle"
| "expected _ = stateStarted"

fun target :: "updater_call \<Rightarrow> state" where
  "target CallStart = stateStarted"
| "target CallPrepare = statePrepared"
| "target CallCommit = stateIdle"
| "target _ = stateStarted"

section \<open>Feature flags (internal/metadata/featureflag/featureflag.go)\<close>

text \<open>
  The incoming gRPC metadata of a context is a map from keys to lists of values;
  \<^verbatim>\<open>metadata.FromIncomingContext\<close> reports whether the context carries one, so a context is
  an optional map. Three package-level values that \<^verbatim>\<open>IsEnabled\<close> reads are parameters of
  the model: \<open>featureFlagsOverride\<close> (read from the environment when the package is
  initialised), and the constants \<open>ffPrefix\<close> and \<open>explicitFeatureFlagKey\<close>, which a file
  of the package that is not among the sources declares. A panic is a result of its own.
  The Prometheus counter that \<^verbatim>\<open>IsEnabled\<close> bumps is not part of the result and is left out.
\<close>

record FeatureFlag =
  Name :: string
  OnByDefault :: bool

type_synonym MD = "string \<rightharpoonup> string list"

type_synonym ff_context = "MD option"

datatype ff_panic = CheckingWithoutFeatureSets string

definition MetadataKey :: "string \<Rightarrow> FeatureFlag \<Rightarrow> string" where
  "MetadataKey ffPrefix ff =
     ffPrefix @ map (\<lambda>c. if c = CHR ''_'' then CHR ''-'' else c) (Name ff)"

definition valueFromContext :: "string \<Rightarrow> FeatureFlag \<Rightarrow> ff_context \<Rightarrow> string option" where
  "valueFromContext ffPrefix ff ctx =
     (case ctx of
        None \<Rightarrow> None
      | Some md \<Rightarrow>
          (case md (MetadataKey ffPrefix ff) of
             None \<Rightarrow> None
           | Some val \<Rightarrow> (if length val = 0 then None else Some (val ! 0))))"

definition IsEnabled ::
  "bool \<Rightarrow> string \<Rightarrow> string \<Rightarrow> FeatureFlag \<Rightarrow> ff_context \<Rightarrow> ff_panic + bool"
where
  "IsEnabled featureFlagsOverride ffPrefix explicitFeatureFlagKey ff ctx =
     (if featureFlagsOverride then Inr True
      else
        (case valueFromContext ffPrefix ff ctx of
           None \<Rightarrow>
             (case ctx of
                Some md \<Rightarrow>
                  (case md explicitFeatureFlagKey of
                     Some _ \<Rightarrow> Inl (CheckingWithoutFeatureSets (Name ff))
                   | None \<Rightarrow> Inr (OnByDefault ff))
              | None \<Rightarrow> Inr (OnByDefault ff))
         | Some val \<Rightarrow> Inr (val = ''true'')))"

definition IsDisabled ::
  "bool \<Rightarrow> string \<Rightarrow> string \<Rightarrow> FeatureFlag \<Rightarrow> ff_context \<Rightarrow> ff_panic + bool"
where
  "IsDisabled featureFlagsOverride ffPrefix explicitFeatureFlagKey ff ctx =
     (case IsEnabled featureFlagsOverride ffPrefix explicitFeatureFlagKey ff ctx of
        Inl p \<Rightarrow> Inl p
      | Inr b \<Rightarrow> Inr (\<not> b))"

section \<open>gRPC error helpers (package helper)\<close>

text \<open>
  Go error values, as far as the helpers can tell them apart: an error has a message
  (\<^verbatim>\<open>Error()\<close>), may wrap another error (\<^verbatim>\<open>Unwrap()\<close>) and may carry a gRPC status
  (\<^verbatim>\<open>GRPCStatus()\<close>). The constructors are the error types the package meets:
  \<^item> \<open>ErrorsNew m\<close>: an error with a message only (\<^verbatim>\<open>errors.New\<close>, \<^verbatim>\<open>fmt.Errorf\<close> without
    \<^verbatim>\<open>%w\<close>, any error type with neither method);
  \<^item> \<open>FmtErrorf m e\<close>: the result of \<^verbatim>\<open>fmt.Errorf\<close> with one \<^verbatim>\<open>%w\<close> operand \<open>e\<close> and the
    formatted message \<open>m\<close>;
  \<^item> \<open>StatusErr s\<close>: the library's status error (\<^verbatim>\<open>status.Error\<close>, \<^verbatim>\<open>Status.Err()\<close>);
  \<^item> \<open>statusWrapper e s\<close> and \<open>grpcErrorMessageWrapper s\<close>: the package's two struct types.
  A nil error is \<open>None\<close>. The details of a status are the two structured errors that
  DeleteRefs attaches.
\<close>

datatype Code =
    OK | Canceled | Unknown | InvalidArgument | DeadlineExceeded | NotFound | AlreadyExists
  | PermissionDenied | ResourceExhausted | FailedPrecondition | Aborted | OutOfRange
  | Unimplemented | Internal | Unavailable | DataLoss | Unauthenticated

datatype detail = InvalidFormat "string list" | ReferencesLocked "string list"

record Status =
  code :: Code
  message :: string
  details :: "detail list"

datatype error =
    ErrorsNew string
  | FmtErrorf string error
  | StatusErr Status
  | statusWrapper error Status
  | grpcErrorMessageWrapper Status

fun code_String :: "Code \<Rightarrow> string" where
  "code_String OK = ''OK''"
| "code_String Canceled = ''Canceled''"
| "code_String Unknown = ''Unknown''"
| "code_String InvalidArgument = ''InvalidArgument''"
| "code_String DeadlineExceeded = ''DeadlineExceeded''"
| "code_String NotFound = ''NotFound''"
| "code_String AlreadyExists = ''AlreadyExists''"
| "code_String PermissionDenied = ''PermissionDenied''"
| "code_String ResourceExhausted = ''ResourceExhausted''"
| "code_String FailedPrecondition = ''FailedPrecondition''"
| "code_String Aborted = ''Aborted''"
| "code_String OutOfRange = ''OutOfRange''"
| "code_String Unimplemented = ''Unimplemented''"
| "code_String Internal = ''Internal''"
| "code_String Unavailable = ''Unavailable''"
| "code_String DataLoss = ''DataLoss''"
| "code_String Unauthenticated = ''Unauthenticated''"

definition status_New :: "Code \<Rightarrow> string \<Rightarrow> Status" where
  "status_New c msg = \<lparr>code = c, message = msg, details = []\<rparr>"

text \<open>\<^verbatim>\<open>Status.Err()\<close> is nil for the code OK.\<close>

definition status_Err :: "Status \<Rightarrow> error option" where
  "status_Err s = (if code s = OK then None else Some (StatusErr s))"

definition status_Error :: "Code \<Rightarrow> string \<Rightarrow> error option" where
  "status_Error c msg = status_Err (status_New c msg)"

fun Error :: "error \<Rightarrow> string" where
  "Error (ErrorsNew m) = m"
| "Error (FmtErrorf m e) = m"
| "Error (StatusErr s) = ''rpc error: code = '' @ code_String (code s) @ '' desc = '' @ message s"
| "Error (statusWrapper e s) = Error e"
| "Error (grpcErrorMessageWrapper s) = message s"

fun GRPCStatus :: "error \<Rightarrow> Status option" where
  "GRPCStatus (StatusErr s) = Some s"
| "GRPCStatus (statusWrapper e s) = Some s"
| "GRPCStatus (grpcErrorMessageWrapper s) = Some s"
| "GRPCStatus _ = None"

fun Unwrap :: "error \<Rightarrow> error option" where
  "Unwrap (FmtErrorf m e) = Some e"
| "Unwrap (statusWrapper e s) = Some e"
| "Unwrap (grpcErrorMessageWrapper s) = status_Err s"
| "Unwrap _ = None"

text \<open>
  \<^verbatim>\<open>status.FromError\<close> of the gRPC library, by its contract: for nil it returns a nil status
  and true; for an error that itself has a \<^verbatim>\<open>GRPCStatus\<close> method, that status and true;
  otherwise a status with code Unknown and the error's message, and false. It does not
  look through \<^verbatim>\<open>Unwrap\<close>, which is why \<^verbatim>\<open>GrpcCode\<close> walks the chain itself.
\<close>

definition FromError :: "error option \<Rightarrow> Status option \<times> bool" where
  "FromError err =
     (case err of
        None \<Rightarrow> (None, True)
      | Some e \<Rightarrow>
          (case GRPCStatus e of
             Some s \<Rightarrow> (Some s, True)
           | None \<Rightarrow> (Some (status_New Unknown (Error e)), False)))"

text \<open>\<^verbatim>\<open>Status.Code()\<close>, which is OK for a nil status.\<close>

definition Status_Code :: "Status option \<Rightarrow> Code" where
  "Status_Code st = (case st of None \<Rightarrow> OK | Some s \<Rightarrow> code s)"

text \<open>The length of the \<^verbatim>\<open>Unwrap\<close> chain below an error: the bound of the loops over it.\<close>

fun chain_depth :: "error \<Rightarrow> nat" where
  "chain_depth (FmtErrorf m e) = Suc (chain_depth e)"
| "chain_depth (statusWrapper e s) = Suc (chain_depth e)"
| "chain_depth (grpcErrorMessageWrapper s) = Suc 0"
| "chain_depth _ = 0"

text \<open>
  The loop of \<^verbatim>\<open>GrpcCode\<close>: \<^verbatim>\<open>for ; err != nil; err = errors.Unwrap(err)\<close>, with the code
  found so far as the accumulator.
\<close>

function GrpcCode_loop :: "Code \<Rightarrow> error option \<Rightarrow> Code" where
  "GrpcCode_loop c None = c"
| "GrpcCode_loop c (Some err) =
     (case FromError (Some err) of
        (st, True) \<Rightarrow> GrpcCode_loop (Status_Code st) (Unwrap err)
      | (st, False) \<Rightarrow> GrpcCode_loop c (Unwrap err))"
  by pat_completeness auto
termination
proof (relation "measure (\<lambda>(c, e). case e of None \<Rightarrow> 0 | Some x \<Rightarrow> Suc (chain_depth x))")
  show "wf (measure (\<lambda>(c, e). case e of None \<Rightarrow> 0 | Some x \<Rightarrow> Suc (chain_depth x)))"
    by simp
next
  fix c err x st b
  show "((Status_Code st, Unwrap err), (c, Some err))
          \<in> measure (\<lambda>(c, e). case e of None \<Rightarrow> 0 | Some x \<Rightarrow> Suc (chain_depth x))"
    by (cases err) (auto simp: status_Err_def split: option.splits)
next
  fix c err x st b
  show "((c, Unwrap err), (c, Some err))
          \<in> measure (\<lambda>(c, e). case e of None \<Rightarrow> 0 | Some x \<Rightarrow> Suc (chain_depth x))"
    by (cases err) (auto simp: status_Err_def split: option.splits)
qed

definition GrpcCode :: "error option \<Rightarrow> Code" where
  "GrpcCode err = (case err of None \<Rightarrow> OK | Some e \<Rightarrow> GrpcCode_loop Unknown (Some e))"

definition wrapError :: "Code \<Rightarrow> error option \<Rightarrow> error option" where
  "wrapError c err =
     (case err of
        None \<Rightarrow> None
      | Some e \<Rightarrow>
          if snd (FromError (Some e)) then Some e
          else
            let foundCode = GrpcCode (Some e);
                c' = (if foundCode \<noteq> OK \<and> foundCode \<noteq> Unknown then foundCode else c)
            in Some (statusWrapper e (status_New c' (Error e))))"

definition ErrCanceled :: "error option \<Rightarrow> error option" where
  "ErrCanceled err = wrapError Canceled err"

definition ErrDeadlineExceeded :: "error option \<Rightarrow> error option" where
  "ErrDeadlineExceeded err = wrapError DeadlineExceeded err"

definition ErrInternal :: "error option \<Rightarrow> error option" where
  "ErrInternal err = wrapError Internal err"

definition ErrInvalidArgument :: "error option \<Rightarrow> error option" where
  "ErrInvalidArgument err = wrapError InvalidArgument err"

definition ErrNotFound :: "error option \<Rightarrow> error option" where
  "ErrNotFound err = wrapError NotFound err"

definition ErrFailedPrecondition :: "error option \<Rightarrow> error option" where
  "ErrFailedPrecondition err = wrapError FailedPrecondition err"

definition ErrUnavailable :: "error option \<Rightarrow> error option" where
  "ErrUnavailable err = wrapError Unavailable err"

definition ErrPermissionDenied :: "error option \<Rightarrow> error option" where
  "ErrPermissionDenied err = wrapError PermissionDenied err"

definition ErrAlreadyExists :: "error option \<Rightarrow> error option" where
  "ErrAlreadyExists err = wrapError AlreadyExists err"

definition ErrAborted :: "error option \<Rightarrow> error option" where
  "ErrAborted err = wrapError Aborted err"

definition ErrUnauthenticated :: "error option \<Rightarrow> error option" where
  "ErrUnauthenticated err = wrapError Unauthenticated err"

text \<open>
  The \<^verbatim>\<open>...f\<close> helpers go through \<^verbatim>\<open>formatError\<close>. Every format string the modelled
  callers use is either free of verbs or a text followed by one \<^verbatim>\<open>%w\<close>; \<open>formatError c p a\<close>
  stands for the format \<open>p\<close> itself when \<open>a\<close> is \<open>None\<close>, and for \<open>p\<close> followed by \<^verbatim>\<open>%w\<close> with the
  operand \<open>e\<close> when \<open>a = Some e\<close>. The second loop of the function walks the \<^verbatim>\<open>Unwrap\<close> chain
  of the new error and keeps the last code found.
\<close>

function formatError_loop :: "Code \<Rightarrow> error option \<Rightarrow> Code" where
  "formatError_loop c None = c"
| "formatError_loop c (Some current) =
     (let nestedCode = GrpcCode (Some current)
      in formatError_loop
           (if nestedCode \<noteq> OK \<and> nestedCode \<noteq> Unknown then nestedCode else c)
           (Unwrap current))"
  by pat_completeness auto
termination
proof (relation "measure (\<lambda>(c, e). case e of None \<Rightarrow> 0 | Some x \<Rightarrow> Suc (chain_depth x))")
  show "wf (measure (\<lambda>(c, e). case e of None \<Rightarrow> 0 | Some x \<Rightarrow> Suc (chain_depth x)))"
    by simp
next
  fix c current x
  show "((if x \<noteq> OK \<and> x \<noteq> Unknown then x else c, Unwrap current), (c, Some current))
          \<in> measure (\<lambda>(c, e). case e of None \<Rightarrow> 0 | Some x \<Rightarrow> Suc (chain_depth x))"
    by (cases current) (auto simp: status_Err_def split: option.splits)
qed

definition formatError :: "Code \<Rightarrow> string \<Rightarrow> error option \<Rightarrow> error" where
  "formatError c p a =
     (let args = (case a of
                    None \<Rightarrow> None
                  | Some e \<Rightarrow>
                      (case FromError (Some e) of
                         (Some st, True) \<Rightarrow> Some (grpcErrorMessageWrapper st)
                       | _ \<Rightarrow> Some e));
          err = (case args of
                   None \<Rightarrow> ErrorsNew p
                 | Some e \<Rightarrow> FmtErrorf (p @ Error e) e);
          c' = formatError_loop c (Some err)
      in statusWrapper err (status_New c' (Error err)))"

definition ErrInternalf :: "string \<Rightarrow> error option \<Rightarrow> error" where
  "ErrInternalf p a = formatError Internal p a"

definition ErrInvalidArgumentf :: "string \<Rightarrow> error option \<Rightarrow> error" where
  "ErrInvalidArgumentf p a = formatError InvalidArgument p a"

definition ErrFailedPreconditionf :: "string \<Rightarrow> error option \<Rightarrow> error" where
  "ErrFailedPreconditionf p a = formatError FailedPrecondition p a"

text \<open>
  \<^verbatim>\<open>ErrWithDetails\<close> returns a pair of errors, the second one its own failure. Marshalling a
  detail into the status is taken to succeed.
\<close>

definition ErrWithDetails :: "error option \<Rightarrow> detail list \<Rightarrow> error option \<times> error option" where
  "ErrWithDetails err ds =
     (if GrpcCode err = OK then (None, Some (ErrorsNew ''no error given''))
      else
        (case err of
           None \<Rightarrow> (None, Some (ErrorsNew ''no error given''))
         | Some e \<Rightarrow>
             (case FromError (Some e) of
                (Some st, True) \<Rightarrow> (Some (statusWrapper e (st\<lparr>details := details st @ ds\<rparr>)), None)
              | _ \<Rightarrow> (None, Some (ErrorsNew ''error is not a gRPC status'')))))"

text \<open>
  \<^verbatim>\<open>errors.Is\<close> for a non-nil target: it walks the \<^verbatim>\<open>Unwrap\<close> chain and compares each error
  with the target. Identity of error values is structural equality here: for the library's
  status error that is what its \<^verbatim>\<open>Is\<close> method computes (it compares the two statuses), and a
  sentinel made by \<^verbatim>\<open>errors.New\<close> is identified by its message.
\<close>

function errors_Is :: "error \<Rightarrow> error \<Rightarrow> bool" where
  "errors_Is err tgt =
     (if err = tgt then True
      else (case Unwrap err of None \<Rightarrow> False | Some e \<Rightarrow> errors_Is e tgt))"
  by pat_completeness auto
termination
proof (relation "measure (\<lambda>(e, t). chain_depth e)")
  show "wf (measure (\<lambda>(e, t). chain_depth e))" by simp
next
  fix err tgt :: error and e
  assume "Unwrap err = Some e"
  then show "((e, tgt), (err, tgt)) \<in> measure (\<lambda>(e, t). chain_depth e)"
    by (cases err) (auto simp: status_Err_def split: if_splits)
qed

definition HasPrefix :: "string \<Rightarrow> string \<Rightarrow> bool" where
  "HasPrefix s p = (take (length p) s = p)"

section \<open>ReplicateRepository (package repository)\<close>

text \<open>
  The handler talks to the file system, to the Gitaly server of the source and to helpers
  of the package that are not among the sources. Each of these interactions is a field of
  the environment \<open>rr_env\<close>, holding what the interaction returns:
  \<^item> \<open>ValidateRepository\<close>, \<open>GetPath\<close>, \<open>IsGitDirectory\<close>: the functions of the packages
    \<^verbatim>\<open>service\<close> and \<^verbatim>\<open>storage\<close> and of the locator;
  \<^item> \<open>Stat_ok\<close>, \<open>tempdir_New\<close>, \<open>Rename_err\<close>: \<^verbatim>\<open>os.Stat\<close>, \<^verbatim>\<open>tempdir.NewWithoutContext\<close>
    and \<^verbatim>\<open>os.Rename\<close> in \<^verbatim>\<open>create\<close>;
  \<^item> \<open>createRepository\<close>: the method \<^verbatim>\<open>s.createRepository\<close>, as the function from the result
    of the seeding callback to its own result, and \<open>seed_target\<close>, the repository it hands to
    the callback;
  \<^item> \<open>newRepoClient_snapshot\<close>, \<open>GetSnapshot_err\<close>, \<open>Recv_first\<close>, \<open>GetPath_target\<close>,
    \<open>command_New_err\<close>, \<open>cmd_Wait_err\<close>, \<open>tar_stderr\<close>: the steps of \<^verbatim>\<open>extractSnapshot\<close>
    (\<open>tar_stderr\<close> is the standard error of tar as \<^verbatim>\<open>%q\<close> prints it);
  \<^item> \<open>newRepoClient_exists\<close>, \<open>RepositoryExists\<close>: the up-front existence check;
  \<^item> \<open>syncGitconfig_res\<close>, \<open>syncInfoAttributes_res\<close>, \<open>syncRepository_res\<close>: the results of
    the three synchronisation steps, which run after every check on the source.
\<close>

record Repository =
  StorageName :: string
  RelativePath :: string

definition GetStorageName :: "Repository option \<Rightarrow> string" where
  "GetStorageName r = (case r of None \<Rightarrow> '''' | Some x \<Rightarrow> StorageName x)"

record ReplicateRepositoryRequest =
  rr_Repository :: "Repository option"
  rr_Source :: "Repository option"

datatype ReplicateRepositoryResponse = ReplicateRepositoryResponse

record rr_env =
  ValidateRepository :: "Repository option \<Rightarrow> error option"
  GetPath :: "Repository option \<Rightarrow> error + string"
  IsGitDirectory :: "string \<Rightarrow> bool"
  Stat_ok :: "string \<Rightarrow> bool"
  tempdir_New :: "error + string"
  Rename_err :: "error option"
  createRepository :: "error option \<Rightarrow> error option"
  seed_target :: Repository
  newRepoClient_snapshot :: "error option"
  GetSnapshot_err :: "error option"
  Recv_first :: "error + string"
  GetPath_target :: "error + string"
  command_New_err :: "error option"
  cmd_Wait_err :: "error option"
  tar_stderr :: string
  newRepoClient_exists :: "error option"
  RepositoryExists :: "error + bool"
  syncGitconfig_res :: "error option"
  syncInfoAttributes_res :: "error option"
  syncRepository_res :: "error option"

definition ErrInvalidSourceRepository :: error where
  "ErrInvalidSourceRepository = StatusErr (status_New NotFound ''invalid source repository'')"

definition validateReplicateRepository ::
  "rr_env \<Rightarrow> ReplicateRepositoryRequest \<Rightarrow> error option"
where
  "validateReplicateRepository env req =
     (case ValidateRepository env (rr_Repository req) of
        Some err \<Rightarrow> Some err
      | None \<Rightarrow>
          if rr_Source req = None then Some (ErrorsNew ''source repository cannot be empty'')
          else if GetStorageName (rr_Repository req) = GetStorageName (rr_Source req)
          then Some (ErrorsNew ''repository and source have the same storage'')
          else None)"

definition extractSnapshot :: "rr_env \<Rightarrow> Repository option \<Rightarrow> Repository \<Rightarrow> error option" where
  "extractSnapshot env source tgt =
     (case newRepoClient_snapshot env of
        Some err \<Rightarrow> Some (FmtErrorf (''new client: '' @ Error err) err)
      | None \<Rightarrow>
     (case GetSnapshot_err env of
        Some err \<Rightarrow> Some (FmtErrorf (''get snapshot: '' @ Error err) err)
      | None \<Rightarrow>
     (case Recv_first env of
        Inl err \<Rightarrow>
          (case FromError (Some err) of
             (Some st, True) \<Rightarrow>
               if code st = NotFound \<and> HasPrefix (message st) ''GetRepoPath: not a git repository:''
               then Some ErrInvalidSourceRepository
               else Some (FmtErrorf (''first snapshot read: '' @ Error err) err)
           | _ \<Rightarrow> Some (FmtErrorf (''first snapshot read: '' @ Error err) err))
      | Inr firstBytes \<Rightarrow>
     (case GetPath_target env of
        Inl err \<Rightarrow> Some (FmtErrorf (''target path: '' @ Error err) err)
      | Inr targetPath \<Rightarrow>
     (case command_New_err env of
        Some err \<Rightarrow> Some (FmtErrorf (''create tar command: '' @ Error err) err)
      | None \<Rightarrow>
     (case cmd_Wait_err env of
        Some err \<Rightarrow>
          Some (FmtErrorf (''wait for tar, stderr: '' @ tar_stderr env @ '', err: '' @ Error err) err)
      | None \<Rightarrow> None))))))"

definition createFromSnapshot :: "rr_env \<Rightarrow> ReplicateRepositoryRequest \<Rightarrow> error option" where
  "createFromSnapshot env req =
     (case createRepository env
             (case extractSnapshot env (rr_Source req) (seed_target env) of
                Some err \<Rightarrow> Some (FmtErrorf (''extracting snapshot: '' @ Error err) err)
              | None \<Rightarrow> None) of
        Some err \<Rightarrow> Some (FmtErrorf (''creating repository: '' @ Error err) err)
      | None \<Rightarrow> None)"

definition create :: "rr_env \<Rightarrow> ReplicateRepositoryRequest \<Rightarrow> string \<Rightarrow> error option" where
  "create env req repoPath =
     (case (if Stat_ok env repoPath
            then (case tempdir_New env of
                    Inl err \<Rightarrow> Some err
                  | Inr tempDir \<Rightarrow>
                      (case Rename_err env of
                         Some err \<Rightarrow> Some (ErrorsNew (''error deleting invalid repo: '' @ Error err))
                       | None \<Rightarrow> None))
            else None) of
        Some err \<Rightarrow> Some err
      | None \<Rightarrow>
          (case createFromSnapshot env req of
             Some err \<Rightarrow>
               Some (FmtErrorf (''could not create repository from snapshot: '' @ Error err) err)
           | None \<Rightarrow> None))"

definition ReplicateRepository ::
  "rr_env \<Rightarrow> ReplicateRepositoryRequest \<Rightarrow> ReplicateRepositoryResponse option \<times> error option"
where
  "ReplicateRepository env req =
     (case validateReplicateRepository env req of
        Some err \<Rightarrow> (None, ErrInvalidArgument (Some err))
      | None \<Rightarrow>
     (case GetPath env (rr_Repository req) of
        Inl err \<Rightarrow> (None, ErrInternal (Some err))
      | Inr repoPath \<Rightarrow>
     (case (if \<not> IsGitDirectory env repoPath then create env req repoPath else None) of
        Some err \<Rightarrow>
          if errors_Is err ErrInvalidSourceRepository then (None, Some ErrInvalidSourceRepository)
          else (None, ErrInternal (Some err))
      | None \<Rightarrow>
     (case newRepoClient_exists env of
        Some err \<Rightarrow> (None, Some (ErrInternalf ''new client: '' (Some err)))
      | None \<Rightarrow>
     (case RepositoryExists env of
        Inl err \<Rightarrow> (None, Some (ErrInternalf ''checking for repo existence: '' (Some err)))
      | Inr exists \<Rightarrow>
          if \<not> exists then (None, Some ErrInvalidSourceRepository)
          else
     (case syncGitconfig_res env of
        Some err \<Rightarrow> (None, Some (ErrInternalf ''synchronizing gitconfig: '' (Some err)))
      | None \<Rightarrow>
     (case syncInfoAttributes_res env of
        Some err \<Rightarrow> (None, Some (ErrInternalf ''synchronizing gitattributes: '' (Some err)))
      | None \<Rightarrow>
     (case syncRepository_res env of
        Some err \<Rightarrow> (None, Some (ErrInternalf ''synchronizing repository: '' (Some err)))
      | None \<Rightarrow> (Some ReplicateRepositoryResponse, None)))))))))"

text \<open>
  An environment for examples: every step succeeds, the target is a Git directory, the
  source exists, and \<^verbatim>\<open>createRepository\<close> wraps the error of its seeding callback with \<^verbatim>\<open>%w\<close>.
\<close>

definition rr_env_ok :: rr_env where
  "rr_env_ok =
     \<lparr>ValidateRepository =
        (\<lambda>r. case r of None \<Rightarrow> Some (ErrorsNew ''empty Repository'') | Some x \<Rightarrow> None),
      GetPath = (\<lambda>r. Inr ''/storage/target.git''),
      IsGitDirectory = (\<lambda>p. True),
      Stat_ok = (\<lambda>p. True),
      tempdir_New = Inr ''/storage/+gitaly/tmp/1'',
      Rename_err = None,
      createRepository =
        (\<lambda>r. case r of None \<Rightarrow> None
              | Some e \<Rightarrow> Some (FmtErrorf (''seeding repository: '' @ Error e) e)),
      seed_target = \<lparr>StorageName = ''target'', RelativePath = ''+gitaly/tmp/repo''\<rparr>,
      newRepoClient_snapshot = None,
      GetSnapshot_err = None,
      Recv_first = Inr ''snapshot'',
      GetPath_target = Inr ''/storage/+gitaly/tmp/repo'',
      command_New_err = None,
      cmd_Wait_err = None,
      tar_stderr = [CHR 0x22, CHR 0x22],
      newRepoClient_exists = None,
      RepositoryExists = Inr True,
      syncGitconfig_res = None,
      syncInfoAttributes_res = None,
      syncRepository_res = None\<rparr>"

definition rr_req_ok :: ReplicateRepositoryRequest where
  "rr_req_ok =
     \<lparr>rr_Repository = Some \<lparr>StorageName = ''target'', RelativePath = ''repo.git''\<rparr>,
      rr_Source = Some \<lparr>StorageName = ''source'', RelativePath = ''repo.git''\<rparr>\<rparr>"

section \<open>DeleteRefs (internal/gitaly/service/ref/delete_refs.go)\<close>

text \<open>
  The handler works on a repository, on an updater (section about the reference updater
  above), on a vote hash and on the transaction manager. The updater is the one of
  \<^verbatim>\<open>updateref.go\<close>: the handler creates it with \<^verbatim>\<open>updateref.New\<close> and calls its methods
  \<open>Delete\<close>, \<open>Prepare\<close> and \<open>Commit\<close>. Everything outside the two files is the
  environment \<open>dr_env\<close>:
  \<^item> \<open>ErrEmptyRepository\<close>, \<open>ErrInvalidArg\<close>: two sentinel errors of other packages;
  \<^item> \<open>GetReferences\<close>: the names of the existing references, or the error of listing them;
  \<^item> \<open>Exec_err\<close>, \<open>ObjectHash\<close>: in \<^verbatim>\<open>updateref.New\<close>, the error of starting the process, if
    any, and the zero object ID of the repository's object hash, or the error of detecting it;
  \<^item> \<open>StructuredErrors\<close>: what \<^verbatim>\<open>featureflag.DeleteRefsStructuredErrors.IsEnabled(ctx)\<close>
    returns for the context of the call (see \<open>IsEnabled\<close>), the same at each of its uses;
  \<^item> \<open>ValidateRevision\<close>: \<^verbatim>\<open>git.ValidateRevision\<close>;
  \<^item> \<open>Delete_io i\<close>, \<open>Prepare_io\<close>, \<open>Commit_io\<close>: what the updater's process does during the
    \<open>i\<close>-th \<^verbatim>\<open>Delete\<close>, during \<^verbatim>\<open>Prepare\<close> and during \<^verbatim>\<open>Commit\<close>; \<open>refLocked\<close> and
    \<open>refInvalidFormat\<close>: the two matchers of \<open>Prepare\<close>;
  \<^item> \<open>fmt_q\<close>: how the verb \<^verbatim>\<open>%q\<close> prints a string, for the messages of the updater's errors;
  \<^item> \<open>voteHash_Write i\<close>: the error of the \<open>i\<close>-th write to the vote hash; \<open>voteHash_Vote b\<close>: the
    vote that \<^verbatim>\<open>voteHash.Vote()\<close> computes when the bytes \<open>b\<close> have been written to the hash,
    or its error (package \<^verbatim>\<open>voting\<close> is not among the sources; a hash is a function of the
    bytes written to it);
  \<^item> \<open>VoteOnContext v p\<close>: the error of casting the vote \<open>v\<close> for phase \<open>p\<close>.
  The model returns, next to the handler's result, the votes handed to
  \<^verbatim>\<open>transaction.VoteOnContext\<close>, in order.
\<close>

record DeleteRefsRequest =
  dr_Repository :: "Repository option"
  ExceptWithPrefix :: "string list"
  Refs :: "string list"

record DeleteRefsResponse =
  GitError :: string

datatype phase = Prepared | Committed

record 'v dr_env =
  ErrEmptyRepository :: error
  ErrInvalidArg :: error
  GetReferences :: "error + string list"
  Exec_err :: "error option"
  ObjectHash :: "error + ObjectID"
  StructuredErrors :: "ff_panic + bool"
  ValidateRevision :: "string \<Rightarrow> error option"
  Delete_io :: "nat \<Rightarrow> proc_io"
  Prepare_io :: proc_io
  Commit_io :: proc_io
  refLocked :: "updater_error \<Rightarrow> string option"
  refInvalidFormat :: "updater_error \<Rightarrow> string option"
  fmt_q :: "string \<Rightarrow> string"
  voteHash_Write :: "nat \<Rightarrow> error option"
  voteHash_Vote :: "string \<Rightarrow> error + 'v"
  VoteOnContext :: "'v \<Rightarrow> phase \<Rightarrow> error option"

datatype dr_outcome =
    Panicked ff_panic
  | Returned "DeleteRefsResponse option" "error option"

fun hasAnyPrefix :: "string \<Rightarrow> string list \<Rightarrow> bool" where
  "hasAnyPrefix s [] = False"
| "hasAnyPrefix s (p # prefixes) = (if HasPrefix s p then True else hasAnyPrefix s prefixes)"

definition validateDeleteRefRequest :: "'v dr_env \<Rightarrow> DeleteRefsRequest \<Rightarrow> error option" where
  "validateDeleteRefRequest env req =
     (if dr_Repository req = None then Some (ErrEmptyRepository env)
      else if length (ExceptWithPrefix req) > 0 \<and> length (Refs req) > 0
      then Some (ErrorsNew ''ExceptWithPrefix and Refs are mutually exclusive'')
      else if length (ExceptWithPrefix req) = 0 \<and> length (Refs req) = 0
      then Some (ErrorsNew ''empty ExceptWithPrefix and Refs'')
      else if list_ex (\<lambda>prefix. length prefix = 0) (ExceptWithPrefix req)
      then Some (ErrorsNew ''empty prefix for exclusion'')
      else if list_ex (\<lambda>ref. length ref = 0) (Refs req)
      then Some (ErrorsNew ''empty ref'')
      else None)"

definition refsToRemove :: "'v dr_env \<Rightarrow> DeleteRefsRequest \<Rightarrow> error + ReferenceName list" where
  "refsToRemove env req =
     (if length (Refs req) > 0 then Inr (Refs req)
      else
        (case GetReferences env of
           Inl err \<Rightarrow> Inl err
         | Inr existingRefs \<Rightarrow>
             Inr (filter (\<lambda>name. \<not> hasAnyPrefix name (ExceptWithPrefix req)) existingRefs)))"

text \<open>
  \<^verbatim>\<open>updateref.New\<close>: it starts the process, detects the object hash and returns an updater in
  state \<open>idle\<close>.
\<close>

definition New :: "error option \<Rightarrow> error + ObjectID \<Rightarrow> error + Updater" where
  "New exec_err objectHash =
     (case exec_err of
        Some err \<Rightarrow> Inl err
      | None \<Rightarrow>
          (case objectHash of
             Inl err \<Rightarrow> Inl (FmtErrorf (''detecting object hash: '' @ Error err) err)
           | Inr zero \<Rightarrow> Inr \<lparr>state = stateIdle, ZeroOID = zero, stdin_log = []\<rparr>))"

text \<open>
  The messages of the updater's errors (their \<^verbatim>\<open>Error()\<close> methods and the format strings of
  \<^verbatim>\<open>updateref.go\<close>); \<open>q\<close> prints a string as \<^verbatim>\<open>%q\<close> does. The states are the strings
  \<^verbatim>\<open>idle\<close>, \<^verbatim>\<open>started\<close>, \<^verbatim>\<open>prepared\<close> and \<^verbatim>\<open>closed\<close>.
\<close>

fun state_String :: "state \<Rightarrow> string" where
  "state_String stateIdle = ''idle''"
| "state_String stateStarted = ''started''"
| "state_String statePrepared = ''prepared''"
| "state_String stateClosed = ''closed''"

fun updater_Error :: "(string \<Rightarrow> string) \<Rightarrow> updater_error \<Rightarrow> string" where
  "updater_Error q (invalidStateTransitionError e a) =
     ''expected state '' @ q (state_String e) @ '' but it was '' @ q (state_String a)"
| "updater_Error q (ErrAlreadyLocked r) = ''reference is already locked: '' @ q r"
| "updater_Error q (ErrInvalidReferenceFormat r) = ''invalid reference format: '' @ q r"
| "updater_Error q (WriteError err stderr) = err @ '': '' @ q stderr"
| "updater_Error q (UpdatingStateError st err) =
     ''updating state to '' @ q st @ '': '' @ updater_Error q err"
| "updater_Error q (StateUpdateFailed st err stderr) =
     ''state update to '' @ q st @ '' failed: '' @ err @ '', stderr: '' @ q stderr"
| "updater_Error q (StateUpdateNotSuccessful st line) =
     ''state update to '' @ q st @ '' not successful: expected ok, got '' @ q line"
| "updater_Error q (ClosingUpdater err) = ''closing updater: '' @ err"

text \<open>
  The errors of the updater have no gRPC status and wrap only errors of the process's
  pipes; for the helpers they are errors with a message. \<^verbatim>\<open>errors.As\<close> with a target of type
  \<^verbatim>\<open>*ErrAlreadyLocked\<close> looks for that type along the chain.
\<close>

definition updater_err :: "'v dr_env \<Rightarrow> updater_error \<Rightarrow> error" where
  "updater_err env e = ErrorsNew (updater_Error (fmt_q env) e)"

fun errors_As_ErrAlreadyLocked :: "updater_error \<Rightarrow> string option" where
  "errors_As_ErrAlreadyLocked (ErrAlreadyLocked r) = Some r"
| "errors_As_ErrAlreadyLocked (UpdatingStateError st e) = errors_As_ErrAlreadyLocked e"
| "errors_As_ErrAlreadyLocked _ = None"

text \<open>
  The loop over the references (lines 70 to 82): \<open>i\<close> counts the iterations, \<open>u\<close> is the
  updater and \<open>h\<close> holds the bytes written to the vote hash so far. It ends with \<open>Inl\<close> of the
  handler's result when an iteration returns, and with \<open>Inr\<close> of the updater and the bytes
  written otherwise.
\<close>

fun delete_loop ::
  "'v dr_env \<Rightarrow> bool \<Rightarrow> nat \<Rightarrow> ReferenceName list \<Rightarrow> Updater \<Rightarrow> string \<Rightarrow>
   dr_outcome + Updater \<times> string"
where
  "delete_loop env ff i [] u h = Inr (u, h)"
| "delete_loop env ff i (ref # refnames) u h =
     (case Delete (Delete_io env i) ref u of
        (u1, Some err) \<Rightarrow>
          if ff
          then Inl (Returned None
                 (Some (ErrInternalf ''unable to delete refs: '' (Some (updater_err env err)))))
          else Inl (Returned (Some \<lparr>GitError = updater_Error (fmt_q env) err\<rparr>) None)
      | (u1, None) \<Rightarrow>
          (case voteHash_Write env i of
             Some err \<Rightarrow>
               Inl (Returned None (Some (ErrInternalf ''could not update vote hash: '' (Some err))))
           | None \<Rightarrow> delete_loop env ff (Suc i) refnames u1 (h @ ref @ [CHR 0x0A])))"

definition with_details :: "error \<Rightarrow> detail \<Rightarrow> dr_outcome" where
  "with_details e d =
     (case ErrWithDetails (Some e) [d] of
        (detailedErr, Some err) \<Rightarrow> Returned None (Some (ErrInternalf ''error details: '' (Some err)))
      | (detailedErr, None) \<Rightarrow> Returned None detailedErr)"

definition DeleteRefs :: "'v dr_env \<Rightarrow> DeleteRefsRequest \<Rightarrow> dr_outcome \<times> ('v \<times> phase) list" where
  "DeleteRefs env req =
     (case validateDeleteRefRequest env req of
        Some err \<Rightarrow> (Returned None (ErrInvalidArgument (Some err)), [])
      | None \<Rightarrow>
     (case refsToRemove env req of
        Inl err \<Rightarrow> (Returned None (ErrInternal (Some err)), [])
      | Inr refnames \<Rightarrow>
     (case New (Exec_err env) (ObjectHash env) of
        Inl err \<Rightarrow>
          if errors_Is err (ErrInvalidArg env)
          then (Returned None (ErrInvalidArgument (Some err)), [])
          else (Returned None (ErrInternal (Some err)), [])
      | Inr updater \<Rightarrow>
     (case StructuredErrors env of
        Inl p \<Rightarrow> (Panicked p, [])
      | Inr ff \<Rightarrow>
          if ff \<and> length (filter (\<lambda>ref. ValidateRevision env ref \<noteq> None) refnames) > 0
          then (with_details (ErrInvalidArgumentf ''invalid references'' None)
                  (InvalidFormat (filter (\<lambda>ref. ValidateRevision env ref \<noteq> None) refnames)), [])
          else
     (case delete_loop env ff 0 refnames updater [] of
        Inl r \<Rightarrow> (r, [])
      | Inr (u1, h) \<Rightarrow>
     (case Prepare (refLocked env) (refInvalidFormat env) (Prepare_io env) u1 of
        (u2, Some err) \<Rightarrow>
          if ff
          then (case errors_As_ErrAlreadyLocked err of
                  Some r \<Rightarrow>
                    (with_details (ErrFailedPreconditionf ''cannot lock references'' None)
                       (ReferencesLocked [r]), [])
                | None \<Rightarrow>
                    (Returned None
                       (Some (ErrInternalf ''unable to prepare: '' (Some (updater_err env err)))), []))
          else (Returned
                  (Some \<lparr>GitError = ''unable to delete refs: '' @ updater_Error (fmt_q env) err\<rparr>)
                  None, [])
      | (u2, None) \<Rightarrow>
     (case voteHash_Vote env h of
        Inl err \<Rightarrow> (Returned None (Some (ErrInternalf ''could not compute vote: '' (Some err))), [])
      | Inr vote \<Rightarrow>
     (case VoteOnContext env vote Prepared of
        Some err \<Rightarrow>
          (Returned None (Some (ErrInternalf ''preparatory vote: '' (Some err))), [(vote, Prepared)])
      | None \<Rightarrow>
     (case Commit (Commit_io env) u2 of
        (u3, Some err) \<Rightarrow>
          if ff
          then (Returned None
                  (Some (ErrInternalf ''unable to commit: '' (Some (updater_err env err)))),
                [(vote, Prepared)])
          else (Returned
                  (Some \<lparr>GitError = ''unable to delete refs: '' @ updater_Error (fmt_q env) err\<rparr>)
                  None,
                [(vote, Prepared)])
      | (u3, None) \<Rightarrow>
     (case VoteOnContext env vote Committed of
        Some err \<Rightarrow>
          (Returned None (Some (ErrInternalf ''committing vote: '' (Some err))),
           [(vote, Prepared), (vote, Committed)])
      | None \<Rightarrow>
          (Returned (Some \<lparr>GitError = []\<rparr>) None,
           [(vote, Prepared), (vote, Committed)])))))))))))"

text \<open>
  An environment and a request for examples: a repository of SHA-1 objects, the flag off,
  an updater process that accepts every write and answers every state change with its
  \<^verbatim>\<open>ok\<close> line, a vote that is the very sequence of bytes written to the hash, a transaction
  manager that accepts every vote; \<^verbatim>\<open>%q\<close> puts a string without special characters between
  double quotes. The request asks to delete one branch.
\<close>

definition dr_env_healthy :: "string dr_env" where
  "dr_env_healthy =
     \<lparr>ErrEmptyRepository = ErrorsNew ''empty Repository'',
      ErrInvalidArg = ErrorsNew ''invalid argument'',
      GetReferences = Inr [''refs/heads/a'', ''refs/heads/b'', ''refs/keep/c''],
      Exec_err = None,
      ObjectHash = Inr (replicate 40 CHR ''0''),
      StructuredErrors = Inr False,
      ValidateRevision = (\<lambda>r. None),
      Delete_io = (\<lambda>i. \<lparr>write_err = None, read_res = Inr [], wait_err = None,
                          stderr_buf = []\<rparr>),
      Prepare_io = \<lparr>write_err = None, read_res = Inr (''prepare: ok'' @ [CHR 0x0A]),
                    wait_err = None, stderr_buf = []\<rparr>,
      Commit_io = \<lparr>write_err = None, read_res = Inr (''commit: ok'' @ [CHR 0x0A]),
                   wait_err = None, stderr_buf = []\<rparr>,
      refLocked = (\<lambda>e. None),
      refInvalidFormat = (\<lambda>e. None),
      fmt_q = (\<lambda>s. [CHR 0x22] @ s @ [CHR 0x22]),
      voteHash_Write = (\<lambda>i. None),
      voteHash_Vote = (\<lambda>b. Inr b),
      VoteOnContext = (\<lambda>v p. None)\<rparr>"

definition dr_req_branch :: DeleteRefsRequest where
  "dr_req_branch =
     \<lparr>dr_Repository = Some \<lparr>StorageName = ''default'', RelativePath = ''repo.git''\<rparr>,
      ExceptWithPrefix = [],
      Refs = [''refs/heads/a'']\<rparr>"

section \<open>The Placement Store and the operator commands\<close>

text \<open>
  The datastore behind the operator commands and the commands \<^verbatim>\<open>dataloss\<close>, \<^verbatim>\<open>metadata\<close> and
  \<^verbatim>\<open>track-repository\<close> themselves are not among the sources: only their tests are
  (\<^verbatim>\<open>TestDatalossSubcommand\<close>, \<^verbatim>\<open>TestMetadataSubcommand\<close>, \<^verbatim>\<open>TestAddRepository_Exec\<close>). The
  definitions of this section are therefore written from the specification (sections 3,
  4.1, 6 and 8), with the layout of the printed text taken from the expected outputs of
  the tests.
\<close>

text \<open>Modelled from the spec: the rows of the tables \<^verbatim>\<open>repositories\<close> and
  \<^verbatim>\<open>storage_repositories\<close> (section 3, Repository and Replica). A replica carries its
  generation, absent when the replica is not yet created, and whether it is assigned.\<close>

record repository_row =
  repository_id :: nat
  virtual_storage :: string
  relative_path :: string
  replica_path :: string
  primary :: "string option"

record replica_row =
  replica_repository_id :: nat
  storage :: string
  generation :: "nat option"
  assigned :: bool
  verified_at :: "string option"

text \<open>Modelled from the spec: a replication job (section 3), as far as track-repository
  fills it in.\<close>

datatype change_type = ChangeUpdate | ChangeCreate | ChangeDelete | ChangeRename

record job =
  job_change_type :: change_type
  job_source_storage :: "string option"
  job_target_storage :: string
  job_repository_id :: nat
  job_relative_path :: string

text \<open>Modelled from the spec: the Placement Store, the relational state of section 4.1.\<close>

record placement_store =
  repositories :: "repository_row list"
  storage_repositories :: "replica_row list"
  replication_queue :: "job list"

datatype store_error = ALREADY_EXISTS | NOT_FOUND | errAuthoritativeRepositoryNotExist

text \<open>Modelled from the spec: \<^verbatim>\<open>get_replicas(id)\<close>, the replica rows of a repository.\<close>

definition get_replicas :: "placement_store \<Rightarrow> nat \<Rightarrow> replica_row list" where
  "get_replicas st rid = filter (\<lambda>r. replica_repository_id r = rid) (storage_repositories st)"

text \<open>Modelled from the spec: \<^verbatim>\<open>max_generation(R)\<close>, the largest generation among the
  replicas of a repository (glossary, Generation); absent when no replica has one.\<close>

definition max_generation :: "replica_row list \<Rightarrow> nat option" where
  "max_generation rs =
     (case List.map_filter generation rs of
        [] \<Rightarrow> None
      | g # gs \<Rightarrow> Some (fold max gs g))"

text \<open>Modelled from the spec: a replica with \<^verbatim>\<open>generation = max_generation(R)\<close> is up-to-date
  (section 3); a replica that is not yet created is not.\<close>

definition up_to_date :: "replica_row list \<Rightarrow> replica_row \<Rightarrow> bool" where
  "up_to_date rs r = (generation r \<noteq> None \<and> generation r = max_generation rs)"

text \<open>Modelled from the spec: the unavailability policy of section 4.1. A repository is
  unavailable iff every assigned replica is out-of-date or unhealthy; it is partially
  unavailable iff at least one assigned replica is out-of-date or unhealthy, but at least one
  assigned replica is both up-to-date and healthy. \<open>H\<close> is the health snapshot.\<close>

definition unavailable :: "(string \<Rightarrow> bool) \<Rightarrow> replica_row list \<Rightarrow> bool" where
  "unavailable H rs =
     list_all (\<lambda>r. \<not> up_to_date rs r \<or> \<not> H (storage r)) (filter assigned rs)"

definition partially_unavailable :: "(string \<Rightarrow> bool) \<Rightarrow> replica_row list \<Rightarrow> bool" where
  "partially_unavailable H rs =
     (list_ex (\<lambda>r. \<not> up_to_date rs r \<or> \<not> H (storage r)) (filter assigned rs) \<and>
      list_ex (\<lambda>r. up_to_date rs r \<and> H (storage r)) (filter assigned rs))"

text \<open>Modelled from the spec: \<^verbatim>\<open>get_unavailable(virtual)\<close> and
  \<^verbatim>\<open>get_partially_available(virtual)\<close> of section 4.1, the repositories of a virtual storage
  that are unavailable, respectively partially unavailable, in the order of the table.\<close>

definition get_unavailable ::
  "(string \<Rightarrow> bool) \<Rightarrow> placement_store \<Rightarrow> string \<Rightarrow> repository_row list"
where
  "get_unavailable H st v =
     filter (\<lambda>R. virtual_storage R = v \<and> unavailable H (get_replicas st (repository_id R)))
       (repositories st)"

definition get_partially_available ::
  "(string \<Rightarrow> bool) \<Rightarrow> placement_store \<Rightarrow> string \<Rightarrow> repository_row list"
where
  "get_partially_available H st v =
     filter (\<lambda>R. virtual_storage R = v \<and>
                 partially_unavailable H (get_replicas st (repository_id R)))
       (repositories st)"

text \<open>Modelled from the spec: the number \<open>N\<close> of \<^verbatim>\<open>behind by N changes or less\<close> (section 6),
  the distance of a replica's generation from the maximum. In the expected output of
  \<^verbatim>\<open>TestDatalossSubcommand\<close> a replica without a generation is one more behind than a replica
  of generation 0.\<close>

definition behind_by :: "replica_row list \<Rightarrow> replica_row \<Rightarrow> nat" where
  "behind_by rs r =
     (case max_generation rs of
        None \<Rightarrow> 0
      | Some m \<Rightarrow> (case generation r of None \<Rightarrow> Suc m | Some g \<Rightarrow> m - g))"

text \<open>Modelled from the spec: decimal notation of a number, for the printed text.\<close>

function show_nat :: "nat \<Rightarrow> string" where
  "show_nat n =
     (if n < 10 then [''0123456789'' ! n]
      else show_nat (n div 10) @ [''0123456789'' ! (n mod 10)])"
  by pat_completeness auto
termination
  by (relation "measure (\<lambda>n. n)") auto

text \<open>Modelled from the spec: one line of output, indented by two spaces per level, as in
  the expected outputs of the test.\<close>

definition println :: "nat \<Rightarrow> string \<Rightarrow> string" where
  "println indent msg = replicate (2 * indent) CHR '' '' @ msg @ [CHR 0x0A]"

text \<open>Modelled from the spec: the annotations \<^verbatim>\<open>assigned host\<close> and \<^verbatim>\<open>unhealthy\<close> of a listed
  replica (section 6).\<close>

definition annotations :: "(string \<Rightarrow> bool) \<Rightarrow> replica_row \<Rightarrow> string" where
  "annotations H r =
     (if assigned r then '', assigned host'' else '''') @
     (if H (storage r) then '''' else '', unhealthy'')"

text \<open>Modelled from the spec: the line of an in-sync replica and the line of an outdated
  replica (section 6 and scenario 2 of section 8).\<close>

definition in_sync_line :: "(string \<Rightarrow> bool) \<Rightarrow> replica_row \<Rightarrow> string" where
  "in_sync_line H r = println 4 (storage r @ annotations H r)"

definition outdated_line :: "(string \<Rightarrow> bool) \<Rightarrow> replica_row list \<Rightarrow> replica_row \<Rightarrow> string" where
  "outdated_line H rs r =
     println 4 (storage r @ '' is behind by '' @ show_nat (behind_by rs r) @ '' change'' @
                (if behind_by rs r > 1 then ''s'' else '''') @ '' or less'' @ annotations H r)"

text \<open>Modelled from the spec: the block that dataloss prints for one listed repository:
  its path, marked when unavailable, its primary, the in-sync replicas and the outdated
  replicas, each group in the order of the storage names.\<close>

definition print_repository ::
  "(string \<Rightarrow> bool) \<Rightarrow> placement_store \<Rightarrow> repository_row \<Rightarrow> string"
where
  "print_repository H st R =
     (let rs = sort_key storage (get_replicas st (repository_id R)) in
      println 2 (relative_path R @ (if unavailable H rs then '' (unavailable)'' else '''') @ '':'') @
      println 3 (''Primary: '' @ (case primary R of None \<Rightarrow> ''No Primary'' | Some p \<Rightarrow> p)) @
      println 3 ''In-Sync Storages:'' @
      concat (map (in_sync_line H) (filter (\<lambda>r. behind_by rs r = 0) rs)) @
      println 3 ''Outdated Storages:'' @
      concat (map (outdated_line H rs) (filter (\<lambda>r. behind_by rs r \<noteq> 0) rs)))"

text \<open>Modelled from the spec: the repositories that dataloss lists for one virtual storage:
  the unavailable ones and, with \<^verbatim>\<open>-partially-unavailable\<close>, the partially unavailable ones as
  well (section 6), in the order of the table.\<close>

definition dataloss_repositories ::
  "(string \<Rightarrow> bool) \<Rightarrow> placement_store \<Rightarrow> bool \<Rightarrow> string \<Rightarrow> repository_row list"
where
  "dataloss_repositories H st partially v =
     filter (\<lambda>R. R \<in> set (get_unavailable H st v) \<or>
                 partially \<and> R \<in> set (get_partially_available H st v))
       (repositories st)"

text \<open>Modelled from the spec: what dataloss prints for one virtual storage.\<close>

definition print_virtual_storage ::
  "(string \<Rightarrow> bool) \<Rightarrow> placement_store \<Rightarrow> bool \<Rightarrow> string \<Rightarrow> string"
where
  "print_virtual_storage H st partially v =
     println 0 (''Virtual storage: '' @ v) @
     (case dataloss_repositories H st partially v of
        [] \<Rightarrow>
          println 1 (if partially
                     then ''All repositories are fully available on all assigned storages!''
                     else ''All repositories are available!'')
      | R # Rs \<Rightarrow>
          println 1 ''Repositories:'' @ concat (map (print_repository H st) (R # Rs)))"

text \<open>Modelled from the spec: the virtual storages that dataloss reports on: the one given
  with \<^verbatim>\<open>-virtual-storage\<close>, or else all configured ones, in ascending order of their names.\<close>

definition dataloss_virtual_storages :: "string list \<Rightarrow> string \<Rightarrow> string list" where
  "dataloss_virtual_storages configured flag_virtual_storage =
     sort (if flag_virtual_storage \<noteq> [] then [flag_virtual_storage] else configured)"

text \<open>Modelled from the spec: the dataloss subcommand (section 6). \<open>configured\<close> are the names
  of the virtual storages in the order of the configuration, \<open>flag_virtual_storage\<close> is the
  value of \<^verbatim>\<open>-virtual-storage\<close> (empty when not given), \<open>partially\<close> the flag
  \<^verbatim>\<open>-partially-unavailable\<close>, \<open>args\<close> the positional arguments, which the command refuses.\<close>

datatype cli_error = unexpectedPositionalArgsError string

definition dataloss ::
  "(string \<Rightarrow> bool) \<Rightarrow> placement_store \<Rightarrow> string list \<Rightarrow> string \<Rightarrow> bool \<Rightarrow> string list \<Rightarrow>
   cli_error + string"
where
  "dataloss H st configured flag_virtual_storage partially args =
     (if args \<noteq> [] then Inl (unexpectedPositionalArgsError ''dataloss'')
      else Inr (concat (map (print_virtual_storage H st partially)
                          (dataloss_virtual_storages configured flag_virtual_storage))))"

text \<open>Modelled from the spec: the generation recorded for a storage among the replicas of a
  repository, absent when there is no row or the replica is not yet created.\<close>

definition generation_of :: "replica_row list \<Rightarrow> string \<Rightarrow> nat option" where
  "generation_of rs s =
     (case find (\<lambda>r. storage r = s) rs of None \<Rightarrow> None | Some r \<Rightarrow> generation r)"

text \<open>Modelled from the spec: \<^verbatim>\<open>increment_generation(id, primary, updated_secondaries)\<close> of
  section 4.1: it raises the primary's generation by one, sets each named updated secondary
  to the same new generation, and leaves other replicas untouched; it fails with
  \<^verbatim>\<open>NOT_FOUND\<close> if the repository is gone. A primary without a generation gets the first
  generation, 0, and a named storage without a row gets one (section 3: a replica is
  created in situ by a successful first mutator on that storage).\<close>

definition increment_generation ::
  "placement_store \<Rightarrow> nat \<Rightarrow> string \<Rightarrow> string list \<Rightarrow> store_error + placement_store"
where
  "increment_generation st rid prim updated_secondaries =
     (if \<not> list_ex (\<lambda>R. repository_id R = rid) (repositories st) then Inl NOT_FOUND
      else
        let rs = get_replicas st rid;
            new = (case generation_of rs prim of None \<Rightarrow> 0 | Some g \<Rightarrow> Suc g);
            named = prim # updated_secondaries;
            updated = map (\<lambda>r. if replica_repository_id r = rid \<and> storage r \<in> set named
                                then r\<lparr>generation := Some new\<rparr> else r)
                          (storage_repositories st);
            missing = filter (\<lambda>s. s \<notin> set (map storage rs)) (remdups named);
            inserted = map (\<lambda>s. \<lparr>replica_repository_id = rid, storage = s,
                                   generation = Some new, assigned = False,
                                   verified_at = None\<rparr>) missing
        in Inr (st\<lparr>storage_repositories := updated @ inserted\<rparr>))"

text \<open>Modelled from the spec: \<^verbatim>\<open>reserve_repository_id(virtual, path)\<close> of section 4.1: an
  unused positive id, the same until the repository is created; \<^verbatim>\<open>ALREADY_EXISTS\<close> if the
  repository already exists.\<close>

definition reserve_repository_id ::
  "placement_store \<Rightarrow> string \<Rightarrow> string \<Rightarrow> store_error + nat"
where
  "reserve_repository_id st v p =
     (if list_ex (\<lambda>R. virtual_storage R = v \<and> relative_path R = p) (repositories st)
      then Inl ALREADY_EXISTS
      else Inr (Suc (fold max (map repository_id (repositories st)) 0)))"

text \<open>Modelled from the spec: \<^verbatim>\<open>create_repository\<close> of section 4.1: it inserts the repository
  row and the initial replica rows, generation 0 for the primary and the updated
  secondaries, absent for the outdated secondaries; the replicas are assigned when
  \<^verbatim>\<open>store_assignments\<close> is true. A repository that exists already, by id or by virtual
  storage and path, is \<^verbatim>\<open>ALREADY_EXISTS\<close>, unless \<^verbatim>\<open>force\<close> is set: then its records are
  replaced.\<close>

definition create_repository ::
  "placement_store \<Rightarrow> nat \<Rightarrow> string \<Rightarrow> string \<Rightarrow> string \<Rightarrow> string \<Rightarrow> string list \<Rightarrow>
   string list \<Rightarrow> bool \<Rightarrow> bool \<Rightarrow> store_error + placement_store"
where
  "create_repository st rid v p rp prim updated_secondaries outdated_secondaries
     store_assignments force =
     (let clash = (\<lambda>R. repository_id R = rid \<or> virtual_storage R = v \<and> relative_path R = p)
      in
      if list_ex clash (repositories st) \<and> \<not> force then Inl ALREADY_EXISTS
      else
        let gone = map repository_id (filter clash (repositories st));
            kept_repos = filter (\<lambda>R. \<not> clash R) (repositories st);
            kept_replicas = filter (\<lambda>r. replica_repository_id r \<notin> set (rid # gone))
                              (storage_repositories st);
            current = remdups (prim # updated_secondaries);
            behind = filter (\<lambda>s. s \<notin> set current) (remdups outdated_secondaries);
            row = (\<lambda>g s. \<lparr>replica_repository_id = rid, storage = s, generation = g,
                           assigned = store_assignments, verified_at = None\<rparr>)
        in Inr (st\<lparr>repositories := kept_repos @
                      [\<lparr>repository_id = rid, virtual_storage = v, relative_path = p,
                        replica_path = rp, primary = Some prim\<rparr>],
                    storage_repositories := kept_replicas @ map (row (Some 0)) current @
                      map (row None) behind\<rparr>))"

text \<open>Modelled from the spec: enqueueing a replication job (section 4.4): a duplicate of a
  queued job for the same target, repository and change type is absorbed.\<close>

definition enqueue :: "job \<Rightarrow> placement_store \<Rightarrow> placement_store" where
  "enqueue j st =
     (if list_ex (\<lambda>k. job_target_storage k = job_target_storage j \<and>
                       job_repository_id k = job_repository_id j \<and>
                       job_change_type k = job_change_type j) (replication_queue st)
      then st
      else st\<lparr>replication_queue := replication_queue st @ [j]\<rparr>)"

text \<open>Modelled from the spec: the track-repository subcommand (section 6 and scenario 6 of
  section 8): it registers a repository that exists on the authoritative storage, assigns
  all configured storages of the virtual storage and enqueues repair jobs for the others; for
  a repository already recorded it succeeds and changes nothing. A repository missing on
  the authoritative storage is the error that \<^verbatim>\<open>TestAddRepository_Exec\<close> expects.
  \<open>configured v\<close> are the storages configured for the virtual storage \<open>v\<close>, \<open>on_disk s p\<close>
  tells whether storage \<open>s\<close> holds a repository at path \<open>p\<close>.\<close>

definition track_repository ::
  "(string \<Rightarrow> string list) \<Rightarrow> (string \<Rightarrow> string \<Rightarrow> bool) \<Rightarrow> placement_store \<Rightarrow>
   string \<Rightarrow> string \<Rightarrow> string \<Rightarrow> store_error + placement_store"
where
  "track_repository configured on_disk st v p authoritative =
     (if \<not> on_disk authoritative p then Inl errAuthoritativeRepositoryNotExist
      else
        (case reserve_repository_id st v p of
           Inl e \<Rightarrow> (if e = ALREADY_EXISTS then Inr st else Inl e)
         | Inr rid \<Rightarrow>
             (let others = filter (\<lambda>s. s \<noteq> authoritative) (remdups (configured v)) in
              case create_repository st rid v p p authoritative [] others True False of
                Inl e \<Rightarrow> (if e = ALREADY_EXISTS then Inr st else Inl e)
              | Inr st' \<Rightarrow>
                  Inr (fold (\<lambda>s. enqueue \<lparr>job_change_type = ChangeUpdate,
                                           job_source_storage = Some authoritative,
                                           job_target_storage = s, job_repository_id = rid,
                                           job_relative_path = p\<rparr>) others st'))))"



text \<open>
  The states of the tests. \<open>dataloss_test_store\<close> and \<open>dataloss_test_health\<close> are the state
  that \<^verbatim>\<open>TestDatalossSubcommand\<close> sets up: for repository 2 it records generations for
  gitaly-2 and gitaly-3 only, so the assigned gitaly-1 has no replica yet.
  \<open>unassigned_store\<close> is what \<open>create_repository\<close> leaves when it records the repository
  repo-1 with the primary gitaly-1 and does not store assignments: one replica, up-to-date
  and not assigned. \<open>available_store\<close> holds one repository whose only assigned replica is
  up-to-date.
\<close>

definition replica :: "nat \<Rightarrow> string \<Rightarrow> nat option \<Rightarrow> bool \<Rightarrow> replica_row" where
  "replica rid s g a =
     \<lparr>replica_repository_id = rid, storage = s, generation = g, assigned = a,
      verified_at = None\<rparr>"

definition dataloss_test_store :: placement_store where
  "dataloss_test_store =
     \<lparr>repositories =
        [\<lparr>repository_id = 1, virtual_storage = ''virtual-storage-1'',
          relative_path = ''repository-1'', replica_path = ''repository-1'',
          primary = Some ''gitaly-1''\<rparr>,
         \<lparr>repository_id = 2, virtual_storage = ''virtual-storage-1'',
          relative_path = ''repository-2'', replica_path = ''repository-2'',
          primary = Some ''gitaly-3''\<rparr>],
      storage_repositories =
        [replica 1 ''gitaly-1'' (Some 1) True, replica 1 ''gitaly-2'' (Some 0) True,
         replica 1 ''gitaly-3'' (Some 0) False, replica 2 ''gitaly-1'' None True,
         replica 2 ''gitaly-2'' (Some 1) False, replica 2 ''gitaly-3'' (Some 0) True],
      replication_queue = []\<rparr>"

definition dataloss_test_health :: "string \<Rightarrow> bool" where
  "dataloss_test_health s = (s = ''gitaly-1'' \<or> s = ''gitaly-3'')"


definition lines :: "string list \<Rightarrow> string" where
  "lines ls = concat (map (\<lambda>l. l @ [CHR 0x0A]) ls)"


text \<open>
  \<open>empty_store\<close> is the store before, and \<open>metadata_test_store\<close> the store after, the call of
  \<^verbatim>\<open>CreateRepository\<close> in \<^verbatim>\<open>TestMetadataSubcommand\<close>: primary \<^verbatim>\<open>primary\<close>, updated secondary
  \<^verbatim>\<open>secondary-1\<close>, outdated secondary \<^verbatim>\<open>secondary-2\<close>, assignments stored.
\<close>

definition empty_store :: placement_store where
  "empty_store = \<lparr>repositories = [], storage_repositories = [], replication_queue = []\<rparr>"

definition metadata_test_store :: placement_store where
  "metadata_test_store =
     \<lparr>repositories =
        [\<lparr>repository_id = 1, virtual_storage = ''virtual-storage'',
          relative_path = ''relative-path'', replica_path = ''replica-path'',
          primary = Some ''primary''\<rparr>],
      storage_repositories =
        [replica 1 ''primary'' (Some 0) True, replica 1 ''secondary-1'' (Some 0) True,
         replica 1 ''secondary-2'' None True],
      replication_queue = []\<rparr>"


definition track_test_configured :: "string \<Rightarrow> string list" where
  "track_test_configured v = (if v = ''praefect'' then [''gitaly-1'', ''gitaly-2''] else [])"

definition track_test_on_disk :: "string \<Rightarrow> string \<Rightarrow> bool" where
  "track_test_on_disk s p = (s = ''gitaly-1'')"

section \<open>Theorems\<close>

subsection \<open>The updater's state machine\<close>

lemmas updater_defs = Start_def Update_def Create_def Delete_def Prepare_def Commit_def
  expectState_def checkState_def setState_def write_cmd_def Close_def



lemma call_error_closes:
  "call rl rf io c u = (u', Some e) \<Longrightarrow> state u' = stateClosed"
  by (cases c) (auto simp: updater_defs split: option.splits if_splits sum.splits)





subsection \<open>Feature flags\<close>

lemma valueFromContext_None_iff:
  "valueFromContext p ff ctx = None \<longleftrightarrow>
     (case ctx of None \<Rightarrow> True
      | Some md \<Rightarrow> md (MetadataKey p ff) = None \<or> md (MetadataKey p ff) = Some [])"
  by (auto simp: valueFromContext_def split: option.splits)

lemma valueFromContext_Some:
  "ctx = Some md \<Longrightarrow> md (MetadataKey p ff) = Some (v # vs) \<Longrightarrow>
   valueFromContext p ff ctx = Some v"
  by (simp add: valueFromContext_def)

lemma IsEnabled_explicit_key_panics:
  "IsEnabled False p k ff (Some (Map.empty(k \<mapsto> vs, MetadataKey p ff \<mapsto> []))) =
     Inl (CheckingWithoutFeatureSets (Name ff))"
  by (simp add: IsEnabled_def valueFromContext_def)

text \<open>
  Claim C10 as stated fails: with the override off, a context whose metadata holds the
  explicit-check key and the flag's key with an empty value list does not get the flag's
  \<open>OnByDefault\<close> value: \<^verbatim>\<open>IsEnabled\<close> panics. The constants are here the strings
  \<^verbatim>\<open>gitaly-feature-\<close> and \<^verbatim>\<open>require_explicit_feature_flag_checks\<close>; by
  \<open>IsEnabled_explicit_key_panics\<close> the same happens for every value of the two constants.
\<close>

theorem IsEnabled_default_counterexample:
  "IsEnabled False ''gitaly-feature-'' ''require_explicit_feature_flag_checks''
      \<lparr>Name = ''some_flag'', OnByDefault = True\<rparr>
      (Some (Map.empty(''require_explicit_feature_flag_checks'' \<mapsto> [''true''],
                       ''gitaly-feature-some-flag'' \<mapsto> [])))
     = Inl (CheckingWithoutFeatureSets ''some_flag'') \<and>
   IsEnabled False ''gitaly-feature-'' ''require_explicit_feature_flag_checks''
      \<lparr>Name = ''some_flag'', OnByDefault = True\<rparr>
      (Some (Map.empty(''require_explicit_feature_flag_checks'' \<mapsto> [''true''])))
     \<noteq> Inr True"
  by (simp add: IsEnabled_def valueFromContext_def MetadataKey_def)

text \<open>
  Claim C10, amended. With the testing override disabled, for every flag and context: when
  the context has no incoming metadata, or the metadata lacks the flag's key or holds it
  with an empty value list, \<^verbatim>\<open>IsEnabled\<close> returns the flag's \<open>OnByDefault\<close> value provided
  the metadata does not contain the explicit-check key, and panics when it does; otherwise
  it returns true exactly when the first value is the string \<^verbatim>\<open>true\<close>. \<^verbatim>\<open>IsDisabled\<close> returns
  the negation of whatever \<^verbatim>\<open>IsEnabled\<close> returns, and panics when \<^verbatim>\<open>IsEnabled\<close> panics.
\<close>

theorem IsEnabled_spec:
  "(ctx = None \<longrightarrow> IsEnabled False p k ff ctx = Inr (OnByDefault ff)) \<and>
   (ctx = Some md \<and> (md (MetadataKey p ff) = None \<or> md (MetadataKey p ff) = Some []) \<longrightarrow>
      IsEnabled False p k ff ctx =
        (if md k = None then Inr (OnByDefault ff) else Inl (CheckingWithoutFeatureSets (Name ff)))) \<and>
   (ctx = Some md \<and> md (MetadataKey p ff) = Some (v # vs) \<longrightarrow>
      IsEnabled False p k ff ctx = Inr (v = ''true'')) \<and>
   (IsEnabled ov p k ff ctx = Inr b \<longrightarrow> IsDisabled ov p k ff ctx = Inr (\<not> b)) \<and>
   (IsEnabled ov p k ff ctx = Inl e \<longrightarrow> IsDisabled ov p k ff ctx = Inl e)"
  by (auto simp: IsEnabled_def IsDisabled_def valueFromContext_def split: option.splits)

theorem IsEnabled_spec_witness:
  "IsEnabled False ''gitaly-feature-'' ''require_explicit_feature_flag_checks''
      \<lparr>Name = ''some_flag'', OnByDefault = True\<rparr> None = Inr True \<and>
   IsEnabled False ''gitaly-feature-'' ''require_explicit_feature_flag_checks''
      \<lparr>Name = ''some_flag'', OnByDefault = True\<rparr>
      (Some (Map.empty(''other'' \<mapsto> [''true'']))) = Inr True \<and>
   IsEnabled False ''gitaly-feature-'' ''require_explicit_feature_flag_checks''
      \<lparr>Name = ''some_flag'', OnByDefault = True\<rparr>
      (Some (Map.empty(''gitaly-feature-some-flag'' \<mapsto> [''false'', ''true'']))) = Inr False \<and>
   IsDisabled False ''gitaly-feature-'' ''require_explicit_feature_flag_checks''
      \<lparr>Name = ''some_flag'', OnByDefault = True\<rparr>
      (Some (Map.empty(''gitaly-feature-some-flag'' \<mapsto> [''false'', ''true'']))) = Inr True \<and>
   IsDisabled False ''gitaly-feature-'' ''require_explicit_feature_flag_checks''
      \<lparr>Name = ''some_flag'', OnByDefault = True\<rparr>
      (Some (Map.empty(''require_explicit_feature_flag_checks'' \<mapsto> [''true''])))
     = Inl (CheckingWithoutFeatureSets ''some_flag'')"
proof -
  let ?p = "''gitaly-feature-''" and ?k = "''require_explicit_feature_flag_checks''"
  let ?ff = "\<lparr>Name = ''some_flag'', OnByDefault = True\<rparr>"
  let ?m1 = "Map.empty(''other'' \<mapsto> [''true''])"
  let ?m2 = "Map.empty(''gitaly-feature-some-flag'' \<mapsto> [''false'', ''true''])"
  let ?m3 = "Map.empty(?k \<mapsto> [''true''])"
  have key: "MetadataKey ?p ?ff = ''gitaly-feature-some-flag''"
    by (simp add: MetadataKey_def)
  have a: "IsEnabled False ?p ?k ?ff None = Inr True"
    using IsEnabled_spec[of None ?p ?k ?ff] by simp
  have b: "IsEnabled False ?p ?k ?ff (Some ?m1) = Inr True"
    using IsEnabled_spec[of "Some ?m1" ?p ?k ?ff ?m1] key by simp
  have c: "IsEnabled False ?p ?k ?ff (Some ?m2) = Inr False"
    using IsEnabled_spec[of "Some ?m2" ?p ?k ?ff ?m2 "''false''" "[''true'']"] key by simp
  have d: "IsDisabled False ?p ?k ?ff (Some ?m2) = Inr True"
    using IsEnabled_spec[of "Some ?m2" ?p ?k ?ff ?m2 _ _ False False] c by simp
  have e0: "IsEnabled False ?p ?k ?ff (Some ?m3) = Inl (CheckingWithoutFeatureSets ''some_flag'')"
    using IsEnabled_spec[of "Some ?m3" ?p ?k ?ff ?m3] key by simp
  have e: "IsDisabled False ?p ?k ?ff (Some ?m3) = Inl (CheckingWithoutFeatureSets ''some_flag'')"
    using IsEnabled_spec[of "Some ?m3" ?p ?k ?ff ?m3 _ _ False _ "CheckingWithoutFeatureSets ''some_flag''"] e0
    by simp
  show ?thesis using a b c d e by simp
qed

subsection \<open>The error-wrapping helpers\<close>

lemmas wrapper_defs = ErrCanceled_def ErrDeadlineExceeded_def ErrInternal_def
  ErrInvalidArgument_def ErrNotFound_def ErrFailedPrecondition_def ErrUnavailable_def
  ErrPermissionDenied_def ErrAlreadyExists_def ErrAborted_def ErrUnauthenticated_def

lemma wrapError_nil: "wrapError c None = None"
  by (simp add: wrapError_def)

lemma wrapError_status: "GRPCStatus e \<noteq> None \<Longrightarrow> wrapError c (Some e) = Some e"
  by (auto simp: wrapError_def FromError_def)

lemma GrpcCode_plain:
  "GRPCStatus e = None \<Longrightarrow> Unwrap e = Some inner \<Longrightarrow> GrpcCode (Some e) = GrpcCode (Some inner)"
  by (simp add: GrpcCode_def FromError_def)

lemma wrapError_plain_inner:
  "GRPCStatus e = None \<Longrightarrow> Unwrap e = Some inner \<Longrightarrow>
   GrpcCode (Some inner) \<noteq> OK \<Longrightarrow> GrpcCode (Some inner) \<noteq> Unknown \<Longrightarrow>
   wrapError c (Some e) = Some (statusWrapper e (status_New (GrpcCode (Some inner)) (Error e)))"
  by (simp add: wrapError_def FromError_def GrpcCode_plain Let_def)

lemma wrapError_plain_none:
  "GRPCStatus e = None \<Longrightarrow> GrpcCode (Some e) = OK \<or> GrpcCode (Some e) = Unknown \<Longrightarrow>
   wrapError c (Some e) = Some (statusWrapper e (status_New c (Error e)))"
  by (auto simp add: wrapError_def FromError_def Let_def)

text \<open>
  Claim C8. Let \<open>W\<close> be any of the eleven wrapping helpers and \<open>c\<close> its own code. Then
  \<open>W\<close> of nil is nil; an error that already carries a gRPC status is returned unchanged; a
  plain error (one without a status of its own) that wraps an inner error whose gRPC code,
  as \<^verbatim>\<open>GrpcCode\<close> computes it, is neither OK nor Unknown is wrapped with the inner code and
  not with \<open>c\<close>. The helper's own code \<open>c\<close> is used only when no such code is found.
\<close>

theorem wrappers_keep_status:
  assumes "(W, c) \<in> {(ErrCanceled, Canceled), (ErrDeadlineExceeded, DeadlineExceeded),
      (ErrInternal, Internal), (ErrInvalidArgument, InvalidArgument), (ErrNotFound, NotFound),
      (ErrFailedPrecondition, FailedPrecondition), (ErrUnavailable, Unavailable),
      (ErrPermissionDenied, PermissionDenied), (ErrAlreadyExists, AlreadyExists),
      (ErrAborted, Aborted), (ErrUnauthenticated, Unauthenticated)}"
  shows "W None = None \<and>
    (GRPCStatus e \<noteq> None \<longrightarrow> W (Some e) = Some e) \<and>
    (GRPCStatus e = None \<and> Unwrap e = Some inner \<and>
     GrpcCode (Some inner) \<noteq> OK \<and> GrpcCode (Some inner) \<noteq> Unknown \<longrightarrow>
       W (Some e) = Some (statusWrapper e (status_New (GrpcCode (Some inner)) (Error e)))) \<and>
    (GRPCStatus e = None \<and> (GrpcCode (Some e) = OK \<or> GrpcCode (Some e) = Unknown) \<longrightarrow>
       W (Some e) = Some (statusWrapper e (status_New c (Error e))))"
proof -
  have W: "W = wrapError c"
    using assms by (auto simp: wrapper_defs fun_eq_iff)
  show ?thesis
    unfolding W
    using wrapError_nil wrapError_status wrapError_plain_inner wrapError_plain_none by blast
qed

theorem wrappers_keep_status_witness:
  "ErrInternal None = None \<and>
   ErrNotFound (Some (StatusErr (status_New OutOfRange ''sentinel error'')))
     = Some (StatusErr (status_New OutOfRange ''sentinel error'')) \<and>
   ErrInternal (Some (FmtErrorf ''outer: rpc error: code = OutOfRange desc = sentinel error''
                        (StatusErr (status_New OutOfRange ''sentinel error''))))
     = Some (statusWrapper
               (FmtErrorf ''outer: rpc error: code = OutOfRange desc = sentinel error''
                  (StatusErr (status_New OutOfRange ''sentinel error'')))
               (status_New OutOfRange ''outer: rpc error: code = OutOfRange desc = sentinel error'')) \<and>
   ErrUnavailable (Some (ErrorsNew ''sentinel error''))
     = Some (statusWrapper (ErrorsNew ''sentinel error'')
               (status_New Unavailable ''sentinel error''))"
proof -
  let ?g = "StatusErr (status_New OutOfRange ''sentinel error'')"
  let ?o = "FmtErrorf ''outer: rpc error: code = OutOfRange desc = sentinel error'' ?g"
  have gc: "GrpcCode (Some ?g) = OutOfRange"
    by (simp add: GrpcCode_def FromError_def Status_Code_def status_New_def)
  have pc: "GrpcCode (Some (ErrorsNew ''sentinel error'')) = Unknown"
    by (simp add: GrpcCode_def FromError_def)
  have a: "ErrInternal None = None"
    using wrappers_keep_status[of ErrInternal Internal] by simp
  have b: "ErrNotFound (Some ?g) = Some ?g"
    using wrappers_keep_status[of ErrNotFound NotFound ?g] by simp
  have c: "ErrInternal (Some ?o) = Some (statusWrapper ?o (status_New OutOfRange (Error ?o)))"
    using wrappers_keep_status[of ErrInternal Internal ?o ?g] gc by simp
  have d: "ErrUnavailable (Some (ErrorsNew ''sentinel error''))
     = Some (statusWrapper (ErrorsNew ''sentinel error'') (status_New Unavailable ''sentinel error''))"
    using wrappers_keep_status[of ErrUnavailable Unavailable "ErrorsNew ''sentinel error''"] pc
    by simp
  show ?thesis using a b c d by simp
qed

subsection \<open>ReplicateRepository\<close>

declare errors_Is.simps [simp del]

lemma errors_Is_refl: "errors_Is e e"
  by (subst errors_Is.simps) simp

lemma errors_Is_FmtErrorf:
  "errors_Is (FmtErrorf m e) (StatusErr s) = errors_Is e (StatusErr s)"
  by (subst errors_Is.simps) simp

lemma ErrInvalidSourceRepository_status:
  "FromError (Some ErrInvalidSourceRepository) =
     (Some \<lparr>code = NotFound, message = ''invalid source repository'', details = []\<rparr>, True)"
  by (simp add: ErrInvalidSourceRepository_def FromError_def status_New_def)

lemma extractSnapshot_not_found:
  assumes "newRepoClient_snapshot env = None" "GetSnapshot_err env = None"
    and "Recv_first env = Inl err" "GRPCStatus err = Some st" "code st = NotFound"
    and "HasPrefix (message st) ''GetRepoPath: not a git repository:''"
  shows "extractSnapshot env source tgt = Some ErrInvalidSourceRepository"
  using assms by (simp add: extractSnapshot_def FromError_def)

lemma create_not_found:
  assumes "\<not> Stat_ok env repoPath \<or> (\<exists>d. tempdir_New env = Inr d) \<and> Rename_err env = None"
    and "extractSnapshot env (rr_Source req) (seed_target env) = Some ErrInvalidSourceRepository"
    and "createRepository env
           (Some (FmtErrorf (''extracting snapshot: '' @ Error ErrInvalidSourceRepository)
                    ErrInvalidSourceRepository)) = Some e'"
    and "errors_Is e' ErrInvalidSourceRepository"
  shows "\<exists>e. create env req repoPath = Some e \<and> errors_Is e ErrInvalidSourceRepository"
proof -
  have cfs: "createFromSnapshot env req = Some (FmtErrorf (''creating repository: '' @ Error e') e')"
    using assms(2,3) by (simp add: createFromSnapshot_def)
  have "create env req repoPath =
      Some (FmtErrorf (''could not create repository from snapshot: '' @
              Error (FmtErrorf (''creating repository: '' @ Error e') e'))
              (FmtErrorf (''creating repository: '' @ Error e') e'))"
    using assms(1) cfs by (auto simp: create_def)
  moreover have "errors_Is (FmtErrorf (''could not create repository from snapshot: '' @
              Error (FmtErrorf (''creating repository: '' @ Error e') e'))
              (FmtErrorf (''creating repository: '' @ Error e') e')) ErrInvalidSourceRepository"
    using assms(4) by (simp add: ErrInvalidSourceRepository_def errors_Is_FmtErrorf)
  ultimately show ?thesis by simp
qed

lemma wrapError_plain_code:
  assumes "GRPCStatus e = None" "GrpcCode (Some e) = OK \<or> GrpcCode (Some e) = Unknown"
  shows "\<exists>x st. wrapError c (Some e) = Some x \<and> FromError (Some x) = (Some st, True) \<and> code st = c"
  using assms by (auto simp: wrapError_def FromError_def Let_def status_New_def)

lemma GrpcCode_ErrorsNew: "GrpcCode (Some (ErrorsNew m)) = Unknown"
  by (simp add: GrpcCode_def FromError_def)

lemma validate_invalid:
  assumes "\<forall>e. ValidateRepository env (rr_Repository req) = Some e \<longrightarrow>
             GRPCStatus e = None \<and> (GrpcCode (Some e) = OK \<or> GrpcCode (Some e) = Unknown)"
    and "rr_Source req = None \<or> GetStorageName (rr_Repository req) = GetStorageName (rr_Source req)"
  shows "\<exists>e. validateReplicateRepository env req = Some e \<and> GRPCStatus e = None \<and>
           (GrpcCode (Some e) = OK \<or> GrpcCode (Some e) = Unknown)"
  using assms
  by (auto simp: validateReplicateRepository_def GrpcCode_ErrorsNew split: option.splits)

lemma ReplicateRepository_invalid:
  assumes "\<forall>e. ValidateRepository env (rr_Repository req) = Some e \<longrightarrow>
             GRPCStatus e = None \<and> (GrpcCode (Some e) = OK \<or> GrpcCode (Some e) = Unknown)"
    and "rr_Source req = None \<or> GetStorageName (rr_Repository req) = GetStorageName (rr_Source req)"
  shows "\<exists>e st. ReplicateRepository env req = (None, Some e) \<and>
           FromError (Some e) = (Some st, True) \<and> code st = InvalidArgument"
proof -
  obtain e where e: "validateReplicateRepository env req = Some e" "GRPCStatus e = None"
      "GrpcCode (Some e) = OK \<or> GrpcCode (Some e) = Unknown"
    using validate_invalid[OF assms] by blast
  obtain x st where "wrapError InvalidArgument (Some e) = Some x"
      "FromError (Some x) = (Some st, True)" "code st = InvalidArgument"
    using wrapError_plain_code[OF e(2,3)] by blast
  then show ?thesis
    using e(1) by (simp add: ReplicateRepository_def ErrInvalidArgument_def)
qed

lemma ReplicateRepository_snapshot_not_found:
  assumes "validateReplicateRepository env req = None"
    and "GetPath env (rr_Repository req) = Inr repoPath"
    and "\<not> IsGitDirectory env repoPath"
    and "create env req repoPath = Some e" "errors_Is e ErrInvalidSourceRepository"
  shows "ReplicateRepository env req = (None, Some ErrInvalidSourceRepository)"
  using assms by (simp add: ReplicateRepository_def)

lemma ReplicateRepository_exists_not_found:
  assumes "validateReplicateRepository env req = None"
    and "GetPath env (rr_Repository req) = Inr repoPath"
    and "IsGitDirectory env repoPath \<or> create env req repoPath = None"
    and "newRepoClient_exists env = None" "RepositoryExists env = Inr False"
  shows "ReplicateRepository env req = (None, Some ErrInvalidSourceRepository)"
  using assms by (auto simp: ReplicateRepository_def)

text \<open>
  Claim C6. (1) When the source is empty, or target and source name the same storage, the
  call fails with a status of code InvalidArgument; the errors of the absent
  \<^verbatim>\<open>service.ValidateRepository\<close>, which runs first, are taken to carry no gRPC code.
  (2) When the target is not a Git directory and has to be created from a snapshot, and the
  first read of the snapshot stream reports the missing source (a NotFound status whose
  message starts with \<^verbatim>\<open>GetRepoPath: not a git repository:\<close>), the call returns
  \<open>ErrInvalidSourceRepository\<close>; \<^verbatim>\<open>createRepository\<close> is taken to keep the error of its
  callback in the chain of the error it returns. (3) When the up-front existence check
  answers that the source does not exist, the call returns \<open>ErrInvalidSourceRepository\<close>.
  In (2) and (3) the request is valid and the steps before the check succeed.
  (4) \<open>ErrInvalidSourceRepository\<close> is the status NotFound with the message
  \<^verbatim>\<open>invalid source repository\<close>.
\<close>

theorem ReplicateRepository_errors:
  "((\<forall>e. ValidateRepository env (rr_Repository req) = Some e \<longrightarrow>
         GRPCStatus e = None \<and> (GrpcCode (Some e) = OK \<or> GrpcCode (Some e) = Unknown)) \<and>
    (rr_Source req = None \<or> GetStorageName (rr_Repository req) = GetStorageName (rr_Source req)) \<longrightarrow>
      (\<exists>e st. ReplicateRepository env req = (None, Some e) \<and>
         FromError (Some e) = (Some st, True) \<and> code st = InvalidArgument)) \<and>
   (validateReplicateRepository env req = None \<and>
    GetPath env (rr_Repository req) = Inr repoPath \<and> \<not> IsGitDirectory env repoPath \<and>
    (\<not> Stat_ok env repoPath \<or> (\<exists>d. tempdir_New env = Inr d) \<and> Rename_err env = None) \<and>
    newRepoClient_snapshot env = None \<and> GetSnapshot_err env = None \<and>
    Recv_first env = Inl err \<and> GRPCStatus err = Some st \<and> code st = NotFound \<and>
    HasPrefix (message st) ''GetRepoPath: not a git repository:'' \<and>
    createRepository env
      (Some (FmtErrorf (''extracting snapshot: '' @ Error ErrInvalidSourceRepository)
               ErrInvalidSourceRepository)) = Some e' \<and>
    errors_Is e' ErrInvalidSourceRepository \<longrightarrow>
      ReplicateRepository env req = (None, Some ErrInvalidSourceRepository)) \<and>
   (validateReplicateRepository env req = None \<and>
    GetPath env (rr_Repository req) = Inr repoPath \<and>
    (IsGitDirectory env repoPath \<or> create env req repoPath = None) \<and>
    newRepoClient_exists env = None \<and> RepositoryExists env = Inr False \<longrightarrow>
      ReplicateRepository env req = (None, Some ErrInvalidSourceRepository)) \<and>
   FromError (Some ErrInvalidSourceRepository) =
     (Some \<lparr>code = NotFound, message = ''invalid source repository'', details = []\<rparr>, True)"
proof (intro conjI impI)
  assume "(\<forall>e. ValidateRepository env (rr_Repository req) = Some e \<longrightarrow>
         GRPCStatus e = None \<and> (GrpcCode (Some e) = OK \<or> GrpcCode (Some e) = Unknown)) \<and>
    (rr_Source req = None \<or> GetStorageName (rr_Repository req) = GetStorageName (rr_Source req))"
  then show "\<exists>e st. ReplicateRepository env req = (None, Some e) \<and>
         FromError (Some e) = (Some st, True) \<and> code st = InvalidArgument"
    using ReplicateRepository_invalid by blast
next
  assume a: "validateReplicateRepository env req = None \<and>
    GetPath env (rr_Repository req) = Inr repoPath \<and> \<not> IsGitDirectory env repoPath \<and>
    (\<not> Stat_ok env repoPath \<or> (\<exists>d. tempdir_New env = Inr d) \<and> Rename_err env = None) \<and>
    newRepoClient_snapshot env = None \<and> GetSnapshot_err env = None \<and>
    Recv_first env = Inl err \<and> GRPCStatus err = Some st \<and> code st = NotFound \<and>
    HasPrefix (message st) ''GetRepoPath: not a git repository:'' \<and>
    createRepository env
      (Some (FmtErrorf (''extracting snapshot: '' @ Error ErrInvalidSourceRepository)
               ErrInvalidSourceRepository)) = Some e' \<and>
    errors_Is e' ErrInvalidSourceRepository"
  have x: "extractSnapshot env (rr_Source req) (seed_target env) = Some ErrInvalidSourceRepository"
    using a extractSnapshot_not_found[of env err st] by blast
  obtain e where "create env req repoPath = Some e" "errors_Is e ErrInvalidSourceRepository"
    using create_not_found[OF _ x, of repoPath e'] a by blast
  then show "ReplicateRepository env req = (None, Some ErrInvalidSourceRepository)"
    using a ReplicateRepository_snapshot_not_found[of env req repoPath e] by blast
next
  assume "validateReplicateRepository env req = None \<and>
    GetPath env (rr_Repository req) = Inr repoPath \<and>
    (IsGitDirectory env repoPath \<or> create env req repoPath = None) \<and>
    newRepoClient_exists env = None \<and> RepositoryExists env = Inr False"
  then show "ReplicateRepository env req = (None, Some ErrInvalidSourceRepository)"
    using ReplicateRepository_exists_not_found[of env req repoPath] by blast
next
  show "FromError (Some ErrInvalidSourceRepository) =
     (Some \<lparr>code = NotFound, message = ''invalid source repository'', details = []\<rparr>, True)"
    by (rule ErrInvalidSourceRepository_status)
qed

theorem ReplicateRepository_errors_witness:
  "ReplicateRepository rr_env_ok (rr_req_ok\<lparr>rr_Source := None\<rparr>) =
     (None, Some (statusWrapper (ErrorsNew ''source repository cannot be empty'')
                    (status_New InvalidArgument ''source repository cannot be empty''))) \<and>
   ReplicateRepository
     (rr_env_ok\<lparr>IsGitDirectory := (\<lambda>p. False),
        Recv_first := Inl (StatusErr (status_New NotFound
           ''GetRepoPath: not a git repository: /storage/source/repo.git''))\<rparr>) rr_req_ok =
     (None, Some ErrInvalidSourceRepository) \<and>
   ReplicateRepository (rr_env_ok\<lparr>RepositoryExists := Inr False\<rparr>) rr_req_ok =
     (None, Some ErrInvalidSourceRepository)"
proof -
  let ?r1 = "rr_req_ok\<lparr>rr_Source := None\<rparr>"
  let ?st = "status_New NotFound ''GetRepoPath: not a git repository: /storage/source/repo.git''"
  let ?e2 = "rr_env_ok\<lparr>IsGitDirectory := (\<lambda>p. False), Recv_first := Inl (StatusErr ?st)\<rparr>"
  let ?e3 = "rr_env_ok\<lparr>RepositoryExists := Inr False\<rparr>"
  let ?x = "FmtErrorf (''extracting snapshot: '' @ Error ErrInvalidSourceRepository)
               ErrInvalidSourceRepository"
  have h1: "(\<forall>e. ValidateRepository rr_env_ok (rr_Repository ?r1) = Some e \<longrightarrow>
         GRPCStatus e = None \<and> (GrpcCode (Some e) = OK \<or> GrpcCode (Some e) = Unknown)) \<and>
      (rr_Source ?r1 = None \<or> GetStorageName (rr_Repository ?r1) = GetStorageName (rr_Source ?r1))"
    by (simp add: rr_env_ok_def rr_req_ok_def)
  have v2: "validateReplicateRepository ?e2 rr_req_ok = None"
    by (simp add: validateReplicateRepository_def rr_env_ok_def rr_req_ok_def GetStorageName_def)
  have v3: "validateReplicateRepository ?e3 rr_req_ok = None"
    by (simp add: validateReplicateRepository_def rr_env_ok_def rr_req_ok_def GetStorageName_def)
  have isE: "errors_Is (FmtErrorf (''seeding repository: '' @ Error ?x) ?x) ErrInvalidSourceRepository"
    unfolding ErrInvalidSourceRepository_def
    by (simp only: errors_Is_FmtErrorf errors_Is_refl)
  have h2a: "validateReplicateRepository ?e2 rr_req_ok = None \<and>
    GetPath ?e2 (rr_Repository rr_req_ok) = Inr ''/storage/target.git'' \<and>
    \<not> IsGitDirectory ?e2 ''/storage/target.git'' \<and>
    (\<not> Stat_ok ?e2 ''/storage/target.git'' \<or>
       (\<exists>d. tempdir_New ?e2 = Inr d) \<and> Rename_err ?e2 = None) \<and>
    newRepoClient_snapshot ?e2 = None \<and> GetSnapshot_err ?e2 = None \<and>
    Recv_first ?e2 = Inl (StatusErr ?st) \<and> GRPCStatus (StatusErr ?st) = Some ?st \<and>
    code ?st = NotFound \<and>
    HasPrefix (message ?st) ''GetRepoPath: not a git repository:''"
    using v2 by (simp add: rr_env_ok_def status_New_def HasPrefix_def)
  have h2b: "createRepository ?e2 (Some ?x) = Some (FmtErrorf (''seeding repository: '' @ Error ?x) ?x)"
    by (simp add: rr_env_ok_def)
  note h2 = conjI[OF h2a conjI[OF h2b isE]]
  have h3: "validateReplicateRepository ?e3 rr_req_ok = None \<and>
    GetPath ?e3 (rr_Repository rr_req_ok) = Inr ''/storage/target.git'' \<and>
    (IsGitDirectory ?e3 ''/storage/target.git'' \<or> create ?e3 rr_req_ok ''/storage/target.git'' = None) \<and>
    newRepoClient_exists ?e3 = None \<and> RepositoryExists ?e3 = Inr False"
    using v3 by (simp add: rr_env_ok_def)
  have a: "ReplicateRepository rr_env_ok ?r1 =
     (None, Some (statusWrapper (ErrorsNew ''source repository cannot be empty'')
                    (status_New InvalidArgument ''source repository cannot be empty'')))"
    using ReplicateRepository_errors[of rr_env_ok ?r1] h1
    by (simp add: ReplicateRepository_def validateReplicateRepository_def rr_env_ok_def
        rr_req_ok_def ErrInvalidArgument_def wrapError_def FromError_def GrpcCode_ErrorsNew)
  have b: "ReplicateRepository ?e2 rr_req_ok = (None, Some ErrInvalidSourceRepository)"
    using ReplicateRepository_errors[of ?e2 rr_req_ok "''/storage/target.git''" "StatusErr ?st" ?st
        "FmtErrorf (''seeding repository: '' @ Error ?x) ?x"] h2 by blast
  have c: "ReplicateRepository ?e3 rr_req_ok = (None, Some ErrInvalidSourceRepository)"
    using ReplicateRepository_errors[of ?e3 rr_req_ok "''/storage/target.git''"] h3 by blast
  show ?thesis using a b c by simp
qed

subsection \<open>DeleteRefs\<close>

lemma Delete_not_started:
  "state u \<noteq> stateStarted \<Longrightarrow>
   Delete io ref u =
     (u\<lparr>state := stateClosed\<rparr>, Some (invalidStateTransitionError stateStarted (state u)))"
  by (simp add: Delete_def Update_def expectState_def checkState_def Close_def)

lemma Prepare_not_started:
  "state u \<noteq> stateStarted \<Longrightarrow>
   Prepare rl rf io u =
     (u\<lparr>state := stateClosed\<rparr>, Some (invalidStateTransitionError stateStarted (state u)))"
  by (simp add: Prepare_def expectState_def checkState_def Close_def)

lemma New_idle: "New e h = Inr u \<Longrightarrow> state u = stateIdle"
  by (auto simp: New_def split: option.splits sum.splits)

lemma delete_loop_not_started:
  "state u \<noteq> stateStarted \<Longrightarrow>
   (\<exists>r. delete_loop env ff i refnames u h = Inl r) \<or>
   refnames = [] \<and> delete_loop env ff i refnames u h = Inr (u, h)"
  by (cases refnames) (simp_all add: Delete_not_started)

lemma delete_loop_then_Prepare:
  assumes "state u = stateIdle" and "delete_loop env ff i refnames u h = Inr (a, b)"
  shows "\<exists>x e. Prepare rl rf io a = (x, Some e)"
proof -
  have "a = u"
    using delete_loop_not_started[of u env ff i refnames h] assms by auto
  then show ?thesis
    using assms(1) by (simp add: Prepare_not_started)
qed

lemma DeleteRefs_outcome:
  "snd (DeleteRefs env req) = [] \<and>
   fst (DeleteRefs env req) \<noteq> Returned (Some \<lparr>GitError = []\<rparr>) None"
proof (cases "validateDeleteRefRequest env req")
  case (Some err)
  then show ?thesis by (simp add: DeleteRefs_def)
next
  case None
  note v = this
  show ?thesis
  proof (cases "refsToRemove env req")
    case (Inl err)
    then show ?thesis using v by (simp add: DeleteRefs_def)
  next
    case (Inr refnames)
    note r = this
    show ?thesis
    proof (cases "New (Exec_err env) (ObjectHash env)")
      case (Inl err)
      then show ?thesis using v r by (simp add: DeleteRefs_def)
    next
      case (Inr updater)
      note n = this
      have idle: "state updater = stateIdle" using New_idle[OF n] .
      show ?thesis
      proof (cases "StructuredErrors env")
        case (Inl p)
        then show ?thesis using v r n by (simp add: DeleteRefs_def)
      next
        case (Inr ff)
        note f = this
        show ?thesis
        proof (cases "delete_loop env ff 0 refnames updater []")
          case (Inl res)
          have "refnames \<noteq> []" using Inl by auto
          then obtain ref rest where l: "refnames = ref # rest" by (cases refnames) auto
          have "res \<noteq> Returned (Some \<lparr>GitError = []\<rparr>) None"
            using Inl idle unfolding l by (auto simp: Delete_not_started split: if_splits)
          then show ?thesis
            using v r n f Inl by (simp add: DeleteRefs_def with_details_def split: prod.splits option.splits)
        next
          case (Inr uh)
          obtain a b where uh: "uh = (a, b)" by (cases uh)
          obtain x e where p: "Prepare (refLocked env) (refInvalidFormat env) (Prepare_io env) a = (x, Some e)"
            using delete_loop_then_Prepare[OF idle Inr[unfolded uh]] by blast
          show ?thesis using v r n f Inr uh p
            by (simp add: DeleteRefs_def with_details_def split: option.splits prod.splits)
        qed
      qed
    qed
  qed
qed

text \<open>
  Claim C5. The handler sets out to cast, for the prepared and for the committed phase, the
  vote of the hash of the names it deletes, each followed by a newline (lines 79 and 113 to
  136). It never gets there. \<^verbatim>\<open>updateref.New\<close> returns an updater in state \<open>idle\<close>, the
  handler calls \<^verbatim>\<open>Delete\<close> and \<^verbatim>\<open>Prepare\<close> without calling \<^verbatim>\<open>Start\<close> before, and both refuse
  every state but \<open>started\<close>. So for every request and every environment DeleteRefs casts
  no vote and never returns a response without a Git error. For the request to delete one
  branch, with everything around the handler in order, the response carries the updater's
  \<open>invalidStateTransitionError\<close> as Git error.
\<close>

theorem DeleteRefs_never_votes:
  "snd (DeleteRefs env req) = [] \<and>
   fst (DeleteRefs env req) \<noteq> Returned (Some \<lparr>GitError = []\<rparr>) None \<and>
   DeleteRefs dr_env_healthy dr_req_branch =
     (Returned
        (Some \<lparr>GitError = ''expected state '' @ [CHR 0x22] @ ''started'' @ [CHR 0x22] @
                            '' but it was '' @ [CHR 0x22] @ ''idle'' @ [CHR 0x22]\<rparr>) None,
      [])"
proof -
  have "DeleteRefs dr_env_healthy dr_req_branch =
     (Returned
        (Some \<lparr>GitError = ''expected state '' @ [CHR 0x22] @ ''started'' @ [CHR 0x22] @
                            '' but it was '' @ [CHR 0x22] @ ''idle'' @ [CHR 0x22]\<rparr>) None,
      [])"
    by code_simp
  then show ?thesis using DeleteRefs_outcome[of env req] by blast
qed

subsection \<open>The dataloss subcommand\<close>



lemma dataloss_repositories_iff:
  "R \<in> set (dataloss_repositories H st partially v) \<longleftrightarrow>
     R \<in> set (repositories st) \<and> virtual_storage R = v \<and>
     (unavailable H (get_replicas st (repository_id R)) \<or>
      partially \<and> partially_unavailable H (get_replicas st (repository_id R)))"
  by (auto simp: dataloss_repositories_def get_unavailable_def get_partially_available_def)

text \<open>
  The model prints what \<^verbatim>\<open>TestDatalossSubcommand\<close> expects, for each of its four cases with
  an output.
\<close>

lemma dataloss_test_unavailable:
  "dataloss dataloss_test_health dataloss_test_store [''virtual-storage-1'', ''virtual-storage-2'']
      ''virtual-storage-1'' False [] =
     Inr (lines
       [''Virtual storage: virtual-storage-1'',
        ''  Repositories:'',
        ''    repository-2 (unavailable):'',
        ''      Primary: gitaly-3'',
        ''      In-Sync Storages:'',
        ''        gitaly-2, unhealthy'',
        ''      Outdated Storages:'',
        ''        gitaly-1 is behind by 2 changes or less, assigned host'',
        ''        gitaly-3 is behind by 1 change or less, assigned host''])"
  by code_simp

lemma dataloss_test_partially_unavailable:
  "dataloss dataloss_test_health dataloss_test_store [''virtual-storage-1'', ''virtual-storage-2'']
      ''virtual-storage-1'' True [] =
     Inr (lines
       [''Virtual storage: virtual-storage-1'',
        ''  Repositories:'',
        ''    repository-1:'',
        ''      Primary: gitaly-1'',
        ''      In-Sync Storages:'',
        ''        gitaly-1, assigned host'',
        ''      Outdated Storages:'',
        ''        gitaly-2 is behind by 1 change or less, assigned host, unhealthy'',
        ''        gitaly-3 is behind by 1 change or less'',
        ''    repository-2 (unavailable):'',
        ''      Primary: gitaly-3'',
        ''      In-Sync Storages:'',
        ''        gitaly-2, unhealthy'',
        ''      Outdated Storages:'',
        ''        gitaly-1 is behind by 2 changes or less, assigned host'',
        ''        gitaly-3 is behind by 1 change or less, assigned host''])"
  by code_simp

lemma dataloss_test_multiple:
  "dataloss dataloss_test_health dataloss_test_store [''virtual-storage-2'', ''virtual-storage-1'']
      [] False [] =
     Inr (lines
       [''Virtual storage: virtual-storage-1'',
        ''  Repositories:'',
        ''    repository-2 (unavailable):'',
        ''      Primary: gitaly-3'',
        ''      In-Sync Storages:'',
        ''        gitaly-2, unhealthy'',
        ''      Outdated Storages:'',
        ''        gitaly-1 is behind by 2 changes or less, assigned host'',
        ''        gitaly-3 is behind by 1 change or less, assigned host'',
        ''Virtual storage: virtual-storage-2'',
        ''  All repositories are available!''])"
  by code_simp

lemma dataloss_test_multiple_partially:
  "dataloss dataloss_test_health dataloss_test_store [''virtual-storage-2'', ''virtual-storage-1'']
      [] True [] =
     Inr (lines
       [''Virtual storage: virtual-storage-1'',
        ''  Repositories:'',
        ''    repository-1:'',
        ''      Primary: gitaly-1'',
        ''      In-Sync Storages:'',
        ''        gitaly-1, assigned host'',
        ''      Outdated Storages:'',
        ''        gitaly-2 is behind by 1 change or less, assigned host, unhealthy'',
        ''        gitaly-3 is behind by 1 change or less'',
        ''    repository-2 (unavailable):'',
        ''      Primary: gitaly-3'',
        ''      In-Sync Storages:'',
        ''        gitaly-2, unhealthy'',
        ''      Outdated Storages:'',
        ''        gitaly-1 is behind by 2 changes or less, assigned host'',
        ''        gitaly-3 is behind by 1 change or less, assigned host'',
        ''Virtual storage: virtual-storage-2'',
        ''  All repositories are fully available on all assigned storages!''])"
  by code_simp








subsection \<open>Generations\<close>

lemma increment_generation_Inr:
  assumes "increment_generation st rid prim secs = Inr st'"
  shows "st' = st\<lparr>storage_repositories :=
       map (\<lambda>r. if replica_repository_id r = rid \<and> storage r \<in> set (prim # secs)
                 then r\<lparr>generation :=
                   Some (case generation_of (get_replicas st rid) prim of
                           None \<Rightarrow> 0 | Some g \<Rightarrow> Suc g)\<rparr> else r)
         (storage_repositories st) @
       map (\<lambda>s. \<lparr>replica_repository_id = rid, storage = s,
                 generation = Some (case generation_of (get_replicas st rid) prim of
                           None \<Rightarrow> 0 | Some g \<Rightarrow> Suc g),
                 assigned = False, verified_at = None\<rparr>)
         (filter (\<lambda>s. s \<notin> set (map storage (get_replicas st rid))) (remdups (prim # secs)))\<rparr>"
  using assms unfolding increment_generation_def Let_def
  by (cases "list_ex (\<lambda>R. repository_id R = rid) (repositories st)") simp_all

lemma filter_bump_same:
  "filter (\<lambda>r. replica_repository_id r = rid)
     (map (\<lambda>r. if replica_repository_id r = rid \<and> storage r \<in> S
                then r\<lparr>generation := Some n\<rparr> else r) xs) =
   map (\<lambda>r. if storage r \<in> S then r\<lparr>generation := Some n\<rparr> else r)
     (filter (\<lambda>r. replica_repository_id r = rid) xs)"
  by (induction xs) auto

lemma filter_bump_other:
  "rid' \<noteq> rid \<Longrightarrow>
   filter (\<lambda>r. replica_repository_id r = rid')
     (map (\<lambda>r. if replica_repository_id r = rid \<and> storage r \<in> S
                then r\<lparr>generation := Some n\<rparr> else r) xs) =
   filter (\<lambda>r. replica_repository_id r = rid') xs"
  by (induction xs) auto

lemma filter_inserted:
  "filter (\<lambda>r. replica_repository_id r = rid')
     (map (\<lambda>s. \<lparr>replica_repository_id = rid, storage = s, generation = g,
                 assigned = a, verified_at = v\<rparr>) ss) =
   (if rid' = rid
    then map (\<lambda>s. \<lparr>replica_repository_id = rid, storage = s, generation = g,
                 assigned = a, verified_at = v\<rparr>) ss
    else [])"
  by (induction ss) auto

lemma increment_generation_replicas:
  assumes "increment_generation st rid prim secs = Inr st'"
  shows "get_replicas st' rid =
       map (\<lambda>r. if storage r \<in> set (prim # secs)
                 then r\<lparr>generation :=
                   Some (case generation_of (get_replicas st rid) prim of
                           None \<Rightarrow> 0 | Some g \<Rightarrow> Suc g)\<rparr> else r)
         (get_replicas st rid) @
       map (\<lambda>s. \<lparr>replica_repository_id = rid, storage = s,
                 generation = Some (case generation_of (get_replicas st rid) prim of
                           None \<Rightarrow> 0 | Some g \<Rightarrow> Suc g),
                 assigned = False, verified_at = None\<rparr>)
         (filter (\<lambda>s. s \<notin> set (map storage (get_replicas st rid))) (remdups (prim # secs)))"
proof -
  define S where "S = set (prim # secs)"
  define new where "new = (case generation_of (get_replicas st rid) prim of None \<Rightarrow> 0 | Some g \<Rightarrow> Suc g)"
  define ms where "ms = filter (\<lambda>s. s \<notin> set (map storage (get_replicas st rid))) (remdups (prim # secs))"
  have "storage_repositories st' =
       map (\<lambda>r. if replica_repository_id r = rid \<and> storage r \<in> S
                 then r\<lparr>generation := Some new\<rparr> else r) (storage_repositories st) @
       map (\<lambda>s. \<lparr>replica_repository_id = rid, storage = s, generation = Some new,
                 assigned = False, verified_at = None\<rparr>) ms"
    unfolding S_def new_def ms_def by (subst increment_generation_Inr[OF assms]) simp
  then have "get_replicas st' rid =
       map (\<lambda>r. if storage r \<in> S then r\<lparr>generation := Some new\<rparr> else r) (get_replicas st rid) @
       map (\<lambda>s. \<lparr>replica_repository_id = rid, storage = s, generation = Some new,
                 assigned = False, verified_at = None\<rparr>) ms"
    by (simp add: get_replicas_def filter_bump_same filter_inserted)
  then show ?thesis unfolding S_def new_def ms_def .
qed

lemma increment_generation_others:
  assumes "increment_generation st rid prim secs = Inr st'" "rid' \<noteq> rid"
  shows "get_replicas st' rid' = get_replicas st rid'"
proof -
  define S where "S = set (prim # secs)"
  define new where "new = (case generation_of (get_replicas st rid) prim of None \<Rightarrow> 0 | Some g \<Rightarrow> Suc g)"
  define ms where "ms = filter (\<lambda>s. s \<notin> set (map storage (get_replicas st rid))) (remdups (prim # secs))"
  have "storage_repositories st' =
       map (\<lambda>r. if replica_repository_id r = rid \<and> storage r \<in> S
                 then r\<lparr>generation := Some new\<rparr> else r) (storage_repositories st) @
       map (\<lambda>s. \<lparr>replica_repository_id = rid, storage = s, generation = Some new,
                 assigned = False, verified_at = None\<rparr>) ms"
    unfolding S_def new_def ms_def by (subst increment_generation_Inr[OF assms(1)]) simp
  then show ?thesis
    using assms(2) by (simp add: get_replicas_def filter_bump_other filter_inserted)
qed

lemma find_map_storage:
  "find (\<lambda>r. storage r = s) (map (\<lambda>r. if storage r \<in> S then r\<lparr>generation := Some n\<rparr> else r) xs) =
   map_option (\<lambda>r. if storage r \<in> S then r\<lparr>generation := Some n\<rparr> else r)
     (find (\<lambda>r. storage r = s) xs)"
  by (induction xs) auto

lemma find_append:
  "find P (xs @ ys) = (case find P xs of None \<Rightarrow> find P ys | Some x \<Rightarrow> Some x)"
  by (induction xs) auto

lemma find_inserted:
  "find (\<lambda>r. storage r = s)
     (map (\<lambda>s. \<lparr>replica_repository_id = rid, storage = s, generation = g,
                 assigned = a, verified_at = v\<rparr>) ss) =
   (if s \<in> set ss then Some \<lparr>replica_repository_id = rid, storage = s, generation = g,
                 assigned = a, verified_at = v\<rparr> else None)"
  by (induction ss) auto

lemma find_None_storage: "find (\<lambda>r. storage r = s) xs = None \<longleftrightarrow> s \<notin> set (map storage xs)"
  by (auto simp: find_None_iff)

lemma generation_of_after:
  assumes "increment_generation st rid prim secs = Inr st'"
  shows "generation_of (get_replicas st' rid) s =
     (if s \<in> set (prim # secs)
      then Some (case generation_of (get_replicas st rid) prim of None \<Rightarrow> 0 | Some g \<Rightarrow> Suc g)
      else generation_of (get_replicas st rid) s)"
proof -
  define new where "new = (case generation_of (get_replicas st rid) prim of None \<Rightarrow> 0 | Some g \<Rightarrow> Suc g)"
  define S where "S = set (prim # secs)"
  define rs where "rs = get_replicas st rid"
  have r: "get_replicas st' rid =
       map (\<lambda>r. if storage r \<in> S then r\<lparr>generation := Some new\<rparr> else r) rs @
       map (\<lambda>s. \<lparr>replica_repository_id = rid, storage = s, generation = Some new,
                 assigned = False, verified_at = None\<rparr>)
         (filter (\<lambda>s. s \<notin> set (map storage rs)) (remdups (prim # secs)))"
    unfolding new_def S_def rs_def by (rule increment_generation_replicas[OF assms])
  have goal: "generation_of (get_replicas st' rid) s =
     (if s \<in> S then Some new else generation_of rs s)"
  proof (cases "find (\<lambda>r. storage r = s) rs")
    case None
    then have "s \<notin> set (map storage rs)"
      by (simp add: find_None_storage)
    then show ?thesis
      using None unfolding generation_of_def r find_append find_map_storage find_inserted
      by (auto simp: S_def)
  next
    case (Some x)
    then have "storage x = s" by (auto dest: find_Some_iff[THEN iffD1])
    then show ?thesis
      using Some unfolding generation_of_def r find_append find_map_storage
      by auto
  qed
  then show ?thesis unfolding new_def S_def rs_def .
qed

lemma increment_generation_untouched:
  assumes "increment_generation st rid prim secs = Inr st'"
  shows "filter (\<lambda>r. storage r \<notin> set (prim # secs)) (get_replicas st' rid) =
         filter (\<lambda>r. storage r \<notin> set (prim # secs)) (get_replicas st rid)"
proof -
  define S where "S = set (prim # secs)"
  have a: "filter (\<lambda>r. storage r \<notin> S)
             (map (\<lambda>r. if storage r \<in> S then r\<lparr>generation := Some n\<rparr> else r) xs) =
           filter (\<lambda>r. storage r \<notin> S) xs" for n xs
    by (induction xs) auto
  have b: "filter (\<lambda>r. storage r \<notin> S)
             (map (\<lambda>s. \<lparr>replica_repository_id = rid, storage = s, generation = g,
                        assigned = False, verified_at = None\<rparr>)
                (filter P (remdups (prim # secs)))) = []" for g P
    unfolding S_def by (auto simp: filter_empty_conv)
  show ?thesis
    unfolding increment_generation_replicas[OF assms] filter_append
    unfolding S_def[symmetric] a b by simp
qed

text \<open>
  The model gives what \<^verbatim>\<open>TestMetadataSubcommand\<close> expects after \<^verbatim>\<open>CreateRepository\<close> and
  \<^verbatim>\<open>IncrementGeneration(1, "primary", nil)\<close>: generation 1 on the primary, generation 0 on
  secondary-1, no replica yet on secondary-2, all three assigned.
\<close>

lemma metadata_test_create:
  "create_repository empty_store 1 ''virtual-storage'' ''relative-path'' ''replica-path''
     ''primary'' [''secondary-1''] [''secondary-2''] True True = Inr metadata_test_store"
  by code_simp

lemma metadata_test_increment:
  "map_sum id (\<lambda>st. map (\<lambda>r. (storage r, generation r, assigned r)) (get_replicas st 1))
     (increment_generation metadata_test_store 1 ''primary'' []) =
   Inr [(''primary'', Some 1, True), (''secondary-1'', Some 0, True),
        (''secondary-2'', None, True)]"
  by code_simp

text \<open>
  Claim C3. For a recorded repository whose primary replica holds generation \<open>g\<close>,
  \<^verbatim>\<open>increment_generation(id, primary, updated_secondaries)\<close> succeeds; afterwards the primary
  holds generation \<open>g + 1\<close> and so does every listed secondary; every other storage has the
  generation it had (an absent one stays absent), the rows of the other replicas of the
  repository are unchanged, and so are the replicas of every other repository and the
  repository rows.
\<close>

theorem increment_generation_frame:
  assumes "list_ex (\<lambda>R. repository_id R = rid) (repositories st)"
    and "generation_of (get_replicas st rid) prim = Some g"
  shows "\<exists>st'. increment_generation st rid prim secs = Inr st' \<and>
     generation_of (get_replicas st' rid) prim = Some (Suc g) \<and>
     (\<forall>s \<in> set secs. generation_of (get_replicas st' rid) s = Some (Suc g)) \<and>
     (\<forall>s. s \<notin> set (prim # secs) \<longrightarrow>
        generation_of (get_replicas st' rid) s = generation_of (get_replicas st rid) s) \<and>
     filter (\<lambda>r. storage r \<notin> set (prim # secs)) (get_replicas st' rid) =
       filter (\<lambda>r. storage r \<notin> set (prim # secs)) (get_replicas st rid) \<and>
     (\<forall>rid'. rid' \<noteq> rid \<longrightarrow> get_replicas st' rid' = get_replicas st rid') \<and>
     repositories st' = repositories st"
proof -
  obtain st' where i: "increment_generation st rid prim secs = Inr st'"
    using assms(1) by (simp add: increment_generation_def Let_def)
  have "generation_of (get_replicas st' rid) prim = Some (Suc g)"
    using generation_of_after[OF i, of prim] assms(2) by simp
  moreover have "\<forall>s \<in> set secs. generation_of (get_replicas st' rid) s = Some (Suc g)"
    using generation_of_after[OF i] assms(2) by simp
  moreover have "\<forall>s. s \<notin> set (prim # secs) \<longrightarrow>
        generation_of (get_replicas st' rid) s = generation_of (get_replicas st rid) s"
    using generation_of_after[OF i] by simp
  moreover have "\<forall>rid'. rid' \<noteq> rid \<longrightarrow> get_replicas st' rid' = get_replicas st rid'"
    using increment_generation_others[OF i] by blast
  moreover have "repositories st' = repositories st"
    by (subst increment_generation_Inr[OF i]) simp
  ultimately show ?thesis
    using i increment_generation_untouched[OF i] by blast
qed

theorem increment_generation_frame_witness:
  "\<exists>st'. increment_generation metadata_test_store 1 ''primary'' [''secondary-1''] = Inr st' \<and>
     generation_of (get_replicas st' 1) ''primary'' = Some 1 \<and>
     generation_of (get_replicas st' 1) ''secondary-1'' = Some 1 \<and>
     generation_of (get_replicas st' 1) ''secondary-2'' = None \<and>
     filter (\<lambda>r. storage r \<notin> set [''primary'', ''secondary-1'']) (get_replicas st' 1) =
       [replica 1 ''secondary-2'' None True]"
proof -
  have h1: "list_ex (\<lambda>R. repository_id R = 1) (repositories metadata_test_store)"
    by code_simp
  have h2: "generation_of (get_replicas metadata_test_store 1) ''primary'' = Some 0"
    by code_simp
  have h3: "generation_of (get_replicas metadata_test_store 1) ''secondary-2'' = None"
    by code_simp
  have h4: "filter (\<lambda>r. storage r \<notin> set [''primary'', ''secondary-1''])
              (get_replicas metadata_test_store 1) = [replica 1 ''secondary-2'' None True]"
    by code_simp
  have h5: "''secondary-2'' \<notin> set [''primary'', ''secondary-1'']"
    by simp
  from increment_generation_frame[OF h1 h2, of "[''secondary-1'']"]
  obtain st' where s: "increment_generation metadata_test_store 1 ''primary'' [''secondary-1''] = Inr st'"
    "generation_of (get_replicas st' 1) ''primary'' = Some (Suc 0)"
    "\<forall>s \<in> set [''secondary-1'']. generation_of (get_replicas st' 1) s = Some (Suc 0)"
    "\<forall>s. s \<notin> set [''primary'', ''secondary-1''] \<longrightarrow>
        generation_of (get_replicas st' 1) s = generation_of (get_replicas metadata_test_store 1) s"
    "filter (\<lambda>r. storage r \<notin> set [''primary'', ''secondary-1'']) (get_replicas st' 1) =
       filter (\<lambda>r. storage r \<notin> set [''primary'', ''secondary-1''])
         (get_replicas metadata_test_store 1)"
    by blast
  have "generation_of (get_replicas st' 1) ''secondary-2'' = None"
    using s(4) h5 h3 by metis
  moreover have "generation_of (get_replicas st' 1) ''secondary-1'' = Some 1"
    using s(3) by simp
  ultimately show ?thesis
    using s(1,2,5) h4 by (intro exI[of _ st']) simp
qed

subsection \<open>The track-repository subcommand\<close>














lemma track_test_fresh:
  "track_repository track_test_configured track_test_on_disk empty_store
     ''praefect'' ''path/to/test/repo'' ''gitaly-1'' =
   Inr \<lparr>repositories =
          [\<lparr>repository_id = 1, virtual_storage = ''praefect'',
            relative_path = ''path/to/test/repo'', replica_path = ''path/to/test/repo'',
            primary = Some ''gitaly-1''\<rparr>],
        storage_repositories =
          [replica 1 ''gitaly-1'' (Some 0) True, replica 1 ''gitaly-2'' None True],
        replication_queue =
          [\<lparr>job_change_type = ChangeUpdate, job_source_storage = Some ''gitaly-1'',
            job_target_storage = ''gitaly-2'', job_repository_id = 1,
            job_relative_path = ''path/to/test/repo''\<rparr>]\<rparr>"
  by code_simp


lemma sort_mset_cong: "mset xs = mset ys \<Longrightarrow> sort xs = sort (ys :: 'a::linorder list)"
  by (rule properties_for_sort) simp_all

text \<open>
  Claim C7. The output of dataloss does not depend on the order in which the configuration
  lists the virtual storages: two configurations with the same virtual storages give the
  same result. The virtual storages reported on are in ascending order of their names, they
  are the configured ones when \<^verbatim>\<open>-virtual-storage\<close> is not given, and the output is the
  concatenation of their blocks in that order.
\<close>

theorem dataloss_order_independent:
  "(mset configured1 = mset configured2 \<longrightarrow>
      dataloss H st configured1 fv partially args = dataloss H st configured2 fv partially args) \<and>
   sorted (dataloss_virtual_storages configured fv) \<and>
   (fv = [] \<longrightarrow> mset (dataloss_virtual_storages configured fv) = mset configured) \<and>
   dataloss H st configured fv partially [] =
     Inr (concat (map (print_virtual_storage H st partially)
                    (dataloss_virtual_storages configured fv)))"
proof (intro conjI impI)
  assume "mset configured1 = mset configured2"
  then have "sort configured1 = sort configured2" by (rule sort_mset_cong)
  then show "dataloss H st configured1 fv partially args = dataloss H st configured2 fv partially args"
    by (simp add: dataloss_def dataloss_virtual_storages_def)
qed (simp_all add: dataloss_def dataloss_virtual_storages_def)

theorem dataloss_order_independent_witness:
  "dataloss dataloss_test_health dataloss_test_store [''virtual-storage-2'', ''virtual-storage-1'']
      [] False [] =
   dataloss dataloss_test_health dataloss_test_store [''virtual-storage-1'', ''virtual-storage-2'']
      [] False [] \<and>
   dataloss_virtual_storages [''virtual-storage-2'', ''virtual-storage-1''] [] =
     [''virtual-storage-1'', ''virtual-storage-2'']"
proof -
  have m: "mset [''virtual-storage-2'', ''virtual-storage-1''] =
           mset [''virtual-storage-1'', ''virtual-storage-2'']"
    by simp
  have a: "dataloss dataloss_test_health dataloss_test_store
             [''virtual-storage-2'', ''virtual-storage-1''] [] False [] =
           dataloss dataloss_test_health dataloss_test_store
             [''virtual-storage-1'', ''virtual-storage-2''] [] False []"
    using dataloss_order_independent[of "[''virtual-storage-2'', ''virtual-storage-1'']"
        "[''virtual-storage-1'', ''virtual-storage-2'']" dataloss_test_health dataloss_test_store
        "[]" False "[]"] m by blast
  have b: "dataloss_virtual_storages [''virtual-storage-2'', ''virtual-storage-1''] [] =
     [''virtual-storage-1'', ''virtual-storage-2'']"
    by code_simp
  show ?thesis using a b by blast
qed

end
